theory Spec2Isabelle
  imports Complex_Main "HOL-Library.Sublist" "HOL-Library.AList"
begin

section \<open>Values, errors and dictionaries\<close>

text \<open>
  The service in \<^verbatim>\<open>App/services/LLm_service.py\<close> works on the JSON-shaped values that the
  data-fetch layer hands over: \<^verbatim>\<open>None\<close>, booleans, integers, strings, lists and
  dictionaries with string keys. A dictionary is an association list in insertion order.
  A string is a list of code points below 256.
\<close>

datatype pyval =
    PNone
  | PBool bool
  | PInt int
  | PStr string
  | PList "pyval list"
  | PDict "(string \<times> pyval) list"

type_synonym pydict = "(string \<times> pyval) list"

text \<open>
  An exception carries its message, the text that \<^verbatim>\<open>str(e)\<close> returns.
\<close>

datatype error = AttributeError string | TypeError string | KeyError string

fun str_of_error :: "error \<Rightarrow> string" where
  "str_of_error (AttributeError m) = m"
| "str_of_error (TypeError m) = m"
| "str_of_error (KeyError m) = m"

text \<open>The name that \<^verbatim>\<open>type(v).__name__\<close> gives, as it appears in error messages.\<close>

fun type_name :: "pyval \<Rightarrow> string" where
  "type_name PNone = ''NoneType''"
| "type_name (PBool b) = ''bool''"
| "type_name (PInt i) = ''int''"
| "type_name (PStr s) = ''str''"
| "type_name (PList l) = ''list''"
| "type_name (PDict d) = ''dict''"

definition quote :: string where
  "quote = [CHR 0x27]"

text \<open>The exception of an attribute access \<^verbatim>\<open>v.a\<close> on a value without that attribute.\<close>

definition no_attribute :: "pyval \<Rightarrow> string \<Rightarrow> error" where
  "no_attribute v a =
     AttributeError (quote @ type_name v @ quote @ '' object has no attribute '' @ quote @ a @ quote)"

text \<open>\<^verbatim>\<open>d.get(k, default)\<close> on a dictionary.\<close>

definition dict_get :: "pydict \<Rightarrow> string \<Rightarrow> pyval \<Rightarrow> pyval" where
  "dict_get d k dflt = (case map_of d k of None \<Rightarrow> dflt | Some v \<Rightarrow> v)"

text \<open>\<^verbatim>\<open>k in d\<close> on a dictionary.\<close>

definition dict_has :: "pydict \<Rightarrow> string \<Rightarrow> bool" where
  "dict_has d k = (map_of d k \<noteq> None)"

text \<open>
  \<^verbatim>\<open>d[k] = v\<close>: an existing key keeps its place, a new key goes to the end.
\<close>

definition dict_set :: "pydict \<Rightarrow> string \<Rightarrow> pyval \<Rightarrow> pydict" where
  "dict_set d k v = AList.update k v d"

text \<open>Python's truth value of an object: \<^verbatim>\<open>if x\<close>, \<^verbatim>\<open>not x\<close>.\<close>

fun truthy :: "pyval \<Rightarrow> bool" where
  "truthy PNone = False"
| "truthy (PBool b) = b"
| "truthy (PInt i) = (i \<noteq> 0)"
| "truthy (PStr s) = (s \<noteq> [])"
| "truthy (PList l) = (l \<noteq> [])"
| "truthy (PDict d) = (d \<noteq> [])"

text \<open>
  The slice \<^verbatim>\<open>xs[:k]\<close>. A negative \<open>k\<close> counts from the end: \<^verbatim>\<open>xs[:-2]\<close> drops the last
  two elements.
\<close>

definition slice_to :: "'a list \<Rightarrow> int \<Rightarrow> 'a list" where
  "slice_to xs k = (if 0 \<le> k then take (nat k) xs else take (length xs - nat (- k)) xs)"

section \<open>Strings\<close>

text \<open>
  \<^verbatim>\<open>str.lower()\<close> on code points below 256: the letters A to Z and the upper-case
  letters of Latin-1 (192 to 222 without the multiplication sign 215) move up by 32.
\<close>

definition py_lower_char :: "char \<Rightarrow> char" where
  "py_lower_char c =
     (let n = (of_char c :: nat)
      in if (65 \<le> n \<and> n \<le> 90) \<or> (192 \<le> n \<and> n \<le> 222 \<and> n \<noteq> 215)
         then char_of (n + 32) else c)"

definition py_lower :: "string \<Rightarrow> string" where
  "py_lower s = map py_lower_char s"

text \<open>\<^verbatim>\<open>v.lower()\<close> on any value: only a string has the method.\<close>

fun lower_of :: "pyval \<Rightarrow> error + string" where
  "lower_of (PStr s) = Inr (py_lower s)"
| "lower_of v = Inl (no_attribute v ''lower'')"

text \<open>
  The characters that \<^verbatim>\<open>str.split()\<close> without argument splits at (\<^verbatim>\<open>str.isspace\<close>),
  below 256.
\<close>

definition py_isspace :: "char \<Rightarrow> bool" where
  "py_isspace c =
     (let n = (of_char c :: nat)
      in (9 \<le> n \<and> n \<le> 13) \<or> (28 \<le> n \<and> n \<le> 32) \<or> n = 133 \<or> n = 160)"

text \<open>
  \<^verbatim>\<open>s.split()\<close>: the maximal runs of characters that are not white space. The first
  argument is the run read so far.
\<close>

fun split_run :: "string \<Rightarrow> string \<Rightarrow> string list" where
  "split_run cur [] = (if cur = [] then [] else [cur])"
| "split_run cur (c # cs) =
     (if py_isspace c
      then (if cur = [] then split_run [] cs else cur # split_run [] cs)
      else split_run (cur @ [c]) cs)"

definition py_split :: "string \<Rightarrow> string list" where
  "py_split s = split_run [] s"

text \<open>\<^verbatim>\<open>part in s\<close> on strings: \<open>part\<close> occurs in \<open>s\<close> as a contiguous run.\<close>

fun str_contains :: "string \<Rightarrow> string \<Rightarrow> bool" where
  "str_contains [] part = (part = [])"
| "str_contains (c # cs) part = (prefix part (c # cs) \<or> str_contains cs part)"

section \<open>Prioritizing mentioned players in a list\<close>

text \<open>
  Lines 2113 and 2114 of \<^verbatim>\<open>_prioritize_players_in_list\<close>:
  \<^verbatim>\<open>mentioned_parts = mentioned_player.lower().split()\<close> and
  \<^verbatim>\<open>any(part in player_name for part in mentioned_parts if len(part) > 2)\<close>.
\<close>

definition mention_matches :: "string \<Rightarrow> string \<Rightarrow> bool" where
  "mention_matches player_name mentioned_player =
     list_ex (\<lambda>part. str_contains player_name part)
       (filter (\<lambda>part. 2 < length part) (py_split (py_lower mentioned_player)))"

text \<open>
  The inner loop over \<^verbatim>\<open>mentioned_players\<close> with its \<^verbatim>\<open>break\<close>: \<^verbatim>\<open>is_mentioned\<close> ends
  up true when some mention matches.
\<close>

definition is_mentioned :: "string \<Rightarrow> string list \<Rightarrow> bool" where
  "is_mentioned player_name mentioned_players =
     list_ex (mention_matches player_name) mentioned_players"

text \<open>\<^verbatim>\<open>player.get("name", player.get("display_name", ""))\<close>.\<close>

definition name_field :: "pydict \<Rightarrow> pyval" where
  "name_field player = dict_get player ''name'' (dict_get player ''display_name'' (PStr []))"

text \<open>
  The first pass of \<^verbatim>\<open>_prioritize_players_in_list\<close> (lines 2103 to 2121), with the two
  lists \<^verbatim>\<open>prioritized_players\<close> and \<^verbatim>\<open>remaining_players\<close> it appends to. An element
  that is not a dictionary goes to the remaining ones; a name that is not a string makes
  \<^verbatim>\<open>.lower()\<close> raise.
\<close>

fun first_pass ::
  "string list \<Rightarrow> pyval list \<Rightarrow> pyval list \<Rightarrow> pyval list \<Rightarrow> error + (pyval list \<times> pyval list)"
where
  "first_pass mentioned_players [] prioritized_players remaining_players =
     Inr (prioritized_players, remaining_players)"
| "first_pass mentioned_players (player # rest) prioritized_players remaining_players =
     (case player of
        PDict d \<Rightarrow>
          (case lower_of (name_field d) of
             Inl e \<Rightarrow> Inl e
           | Inr player_name \<Rightarrow>
               if is_mentioned player_name mentioned_players
               then first_pass mentioned_players rest (prioritized_players @ [player])
                      remaining_players
               else first_pass mentioned_players rest prioritized_players
                      (remaining_players @ [player]))
      | _ \<Rightarrow>
          first_pass mentioned_players rest prioritized_players (remaining_players @ [player]))"

text \<open>
  \<^verbatim>\<open>_prioritize_players_in_list(players_list, mentioned_players, context)\<close>; the third
  argument is only printed. \<^verbatim>\<open>max_players = 30\<close>, and the slice
  \<^verbatim>\<open>remaining_players[:max_players - len(prioritized_players)]\<close> gets a negative bound
  when more than 30 players are mentioned.
\<close>

definition max_players :: int where
  "max_players = 30"

definition prioritize_players_in_list :: "pyval list \<Rightarrow> string list \<Rightarrow> error + pyval list" where
  "prioritize_players_in_list players_list mentioned_players =
     (if players_list = [] \<or> mentioned_players = [] then Inr players_list
      else
        case first_pass mentioned_players players_list [] [] of
          Inl e \<Rightarrow> Inl e
        | Inr (prioritized_players, remaining_players) \<Rightarrow>
            Inr (prioritized_players @
                 slice_to remaining_players (max_players - int (length prioritized_players))))"

text \<open>
  The records the claims speak of: a mapping whose name is a string is mentioned when its
  lower-cased name contains a token longer than two characters of some lower-cased
  mention.
\<close>

definition has_string_name :: "pyval \<Rightarrow> bool" where
  "has_string_name p =
     (case p of PDict d \<Rightarrow> (case name_field d of PStr s \<Rightarrow> True | _ \<Rightarrow> False) | _ \<Rightarrow> True)"

definition mentioned_record :: "string list \<Rightarrow> pyval \<Rightarrow> bool" where
  "mentioned_record mentioned_players p =
     (case p of
        PDict d \<Rightarrow>
          (case name_field d of
             PStr s \<Rightarrow>
               (\<exists>m \<in> set mentioned_players. \<exists>tok \<in> set (py_split (py_lower m)).
                  2 < length tok \<and> str_contains (py_lower s) tok)
           | _ \<Rightarrow> False)
      | _ \<Rightarrow> False)"

section \<open>Summarizing fantasy rankings\<close>

text \<open>
  The summary of one player that \<^verbatim>\<open>_summarize_fantasy_rankings\<close> builds in its list
  branch (lines 923 to 949) and that \<^verbatim>\<open>_process_large_player_list_chunked\<close> builds again,
  statement for statement, in lines 1620 to 1647.
\<close>

definition player_summary :: "pydict \<Rightarrow> pydict" where
  "player_summary player =
     (let s0 = [(''id'', dict_get player ''player_id'' (PStr [])),
                (''name'', dict_get player ''display_name'' (dict_get player ''name'' (PStr []))),
                (''team'', dict_get player ''team'' (PStr [])),
                (''position'', dict_get player ''position'' (PStr [])),
                (''rank'', dict_get player ''rank'' (dict_get player ''position_rank'' (PInt 0))),
                (''bye_week'', dict_get player ''bye_week'' (PStr []))];
          s1 = (if dict_has player ''standard_points''
                then dict_set s0 ''projected_points''
                       (PDict [(''standard'', dict_get player ''standard_points'' (PInt 0)),
                               (''ppr'', dict_get player ''ppr_points'' (PInt 0)),
                               (''half_ppr'', dict_get player ''half_ppr_points'' (PInt 0))])
                else s0);
          s2 = (if dict_has player ''proj_pts''
                then dict_set s1 ''projected_points'' (dict_get player ''proj_pts'' (PInt 0))
                else s1);
          s3 = (if dict_has player ''adp''
                then dict_set s2 ''adp'' (dict_get player ''adp'' (PInt 0))
                else s2);
          s4 = (if dict_has player ''injury_risk''
                then dict_set s3 ''injury_risk'' (dict_get player ''injury_risk'' (PStr []))
                else s3)
      in s4)"

text \<open>
  The loop \<^verbatim>\<open>for player in ...\<close> over a list of players, appending to the list of
  summaries built so far: an element that is not a dictionary is skipped
  (\<^verbatim>\<open>continue\<close>).
\<close>

fun summarize_players :: "pyval list \<Rightarrow> pyval list \<Rightarrow> pyval list" where
  "summarize_players [] summarized = summarized"
| "summarize_players (player # rest) summarized =
     (case player of
        PDict p \<Rightarrow> summarize_players rest (summarized @ [PDict (player_summary p)])
      | _ \<Rightarrow> summarize_players rest summarized)"

text \<open>The slice \<^verbatim>\<open>xs[i:j]\<close> for \<open>0 \<le> i\<close> and \<open>0 \<le> j\<close>.\<close>

definition py_slice :: "'a list \<Rightarrow> nat \<Rightarrow> nat \<Rightarrow> 'a list" where
  "py_slice xs i j = take (j - i) (drop i xs)"

text \<open>
  \<^verbatim>\<open>_process_large_player_list_chunked\<close>: \<^verbatim>\<open>chunk_size = 150\<close> and the loop
  \<^verbatim>\<open>for i in range(0, total_players, chunk_size)\<close>, which takes the chunk
  \<^verbatim>\<open>players_list[i:min(i + chunk_size, total_players)]\<close> and runs the player loop on it.
  Nothing in the body of its \<^verbatim>\<open>try\<close> can raise on the values of \<^typ>\<open>pyval\<close> (it
  only tests \<^verbatim>\<open>isinstance\<close> and calls \<^verbatim>\<open>get\<close> on dictionaries), so the handler in lines
  1654 to 1657 is never entered.
\<close>

definition chunk_size :: nat where
  "chunk_size = 150"

function chunk_loop :: "nat \<Rightarrow> pyval list \<Rightarrow> pyval list \<Rightarrow> pyval list" where
  "chunk_loop i players_list all_summarized =
     (let total_players = length players_list
      in if i < total_players
         then let chunk_end = min (i + chunk_size) total_players;
                  chunk = py_slice players_list i chunk_end
              in chunk_loop (i + chunk_size) players_list (summarize_players chunk all_summarized)
         else all_summarized)"
  by pat_completeness auto
termination
  by (relation "measure (\<lambda>(i, players_list, all_summarized). length players_list - i)")
     (auto simp: chunk_size_def)

declare chunk_loop.simps [simp del]

definition process_large_player_list_chunked :: "pyval list \<Rightarrow> pyval list" where
  "process_large_player_list_chunked players_list = chunk_loop 0 players_list []"

text \<open>
  The position-keyed case of \<^verbatim>\<open>_summarize_fantasy_rankings\<close> (lines 962 to 985). One
  player of a position becomes a three-field summary, or an error entry when it is not a
  dictionary.
\<close>

definition position_keys :: "string list" where
  "position_keys = [''QB'', ''RB'', ''WR'', ''TE'', ''K'', ''DEF'']"

definition position_player_summary :: "pyval \<Rightarrow> pyval" where
  "position_player_summary player =
     (case player of
        PDict p \<Rightarrow>
          (let s = [(''name'', dict_get p ''display_name'' (dict_get p ''name'' (PStr []))),
                    (''team'', dict_get p ''team'' (PStr [])),
                    (''rank'', dict_get p ''rank'' (dict_get p ''position_rank'' (PInt 0)))]
           in PDict (if dict_has p ''proj_pts''
                     then dict_set s ''projected_points'' (dict_get p ''proj_pts'' (PInt 0))
                     else s))
      | _ \<Rightarrow> PDict [(''error'', PStr ''Unexpected player data format'')])"

text \<open>
  One round of \<^verbatim>\<open>for position, players in rankings_data.items()\<close>:
  \<^verbatim>\<open>max_players = 25 if position == "QB" else 15\<close>, and \<^verbatim>\<open>summarized[position]\<close> gets
  one entry for each element of \<^verbatim>\<open>players[:max_players]\<close>.
\<close>

definition position_max_players :: "string \<Rightarrow> nat" where
  "position_max_players position = (if position = ''QB'' then 25 else 15)"

definition position_step :: "string \<times> pyval \<Rightarrow> pydict \<Rightarrow> pydict" where
  "position_step item summarized =
     (case item of
        (position, PList players) \<Rightarrow>
          if players \<noteq> []
          then dict_set summarized position
                 (PList (map position_player_summary (take (position_max_players position) players)))
          else summarized
      | _ \<Rightarrow> summarized)"

definition position_keyed_summary :: "pydict \<Rightarrow> pydict" where
  "position_keyed_summary rankings_data = fold position_step rankings_data []"

text \<open>
  The last case (lines 1013 to 1029) looks for the first field that holds a non-empty
  list whose first element is a dictionary, and samples it in tiers.
\<close>

fun first_player_list :: "pydict \<Rightarrow> pyval list option" where
  "first_player_list [] = None"
| "first_player_list ((key, v) # rest) =
     (case v of
        PList (PDict p # vs) \<Rightarrow> Some (PDict p # vs)
      | _ \<Rightarrow> first_player_list rest)"

definition tiered_sample :: "pyval list \<Rightarrow> pyval list" where
  "tiered_sample v =
     (let total_items = length v;
          tier1 = take 15 v;
          tier2 = (if 60 < total_items then py_slice v 50 60 else []);
          tier3 = (if 155 < total_items then py_slice v 150 155 else [])
      in tier1 @ tier2 @ tier3)"

definition is_list_or_dict :: "pyval \<Rightarrow> bool" where
  "is_list_or_dict v = (case v of PList l \<Rightarrow> True | PDict d \<Rightarrow> True | _ \<Rightarrow> False)"

definition is_list :: "pyval \<Rightarrow> bool" where
  "is_list v = (case v of PList l \<Rightarrow> True | _ \<Rightarrow> False)"

definition rankings_filler :: string where
  "rankings_filler = ''According to the Fantasy Nerds data, NFL player rankings are determined by many factors including past performance, recent games, matchups, and projected usage. Rankings typically showcase the top players at each position based on expected fantasy points.''"

text \<open>
  \<^verbatim>\<open>{k: v for k, v in rankings_data.items() if k not in ["players", "data"] and not
  isinstance(v, (list, dict))}\<close>.
\<close>

definition rankings_metadata :: "pydict \<Rightarrow> pydict" where
  "rankings_metadata rankings_data =
     filter (\<lambda>(k, v). k \<notin> set [''players'', ''data''] \<and> \<not> is_list_or_dict v) rankings_data"

lemma size_dict_entry: "(k, v) \<in> set d \<Longrightarrow> size v < size (PDict d)"
  by (induction d) auto

lemma size_dict_get:
  assumes "dict_has d k"
  shows "size (dict_get d k dflt) < size (PDict d)"
proof -
  from assms obtain v where v: "map_of d k = Some v"
    by (auto simp: dict_has_def)
  then have "(k, v) \<in> set d" by (rule map_of_SomeD)
  then have "size v < size (PDict d)" by (rule size_dict_entry)
  with v show ?thesis by (simp add: dict_get_def)
qed

lemma first_player_list_entry:
  "first_player_list d = Some v \<Longrightarrow> \<exists>k. (k, PList v) \<in> set d"
  by (induction d rule: first_player_list.induct)
     (auto split: pyval.splits list.splits)

lemma size_list_take_le: "size_list f (take n xs) \<le> size_list f xs"
proof -
  have "size_list f (take n xs @ drop n xs) = size_list f xs" by simp
  then show ?thesis by (simp only: size_list_append)
qed

lemma size_list_drop_le: "size_list f (drop n xs) \<le> size_list f xs"
proof -
  have "size_list f (take n xs @ drop n xs) = size_list f xs" by simp
  then show ?thesis by (simp only: size_list_append)
qed

lemma size_list_tiered_sample: "size_list f (tiered_sample v) \<le> size_list f v"
proof -
  have split: "size_list f v = size_list f (take 15 v) + size_list f (drop 15 v)"
    by (metis append_take_drop_id size_list_append)
  have d50: "drop 50 v = drop 35 (drop 15 v)" by simp
  have d150: "drop 150 v = drop 90 (drop 10 (drop 35 (drop 15 v)))" by simp
  let ?w = "drop 35 (drop 15 v)"
  have w: "size_list f ?w \<le> size_list f (drop 15 v)" by (rule size_list_drop_le)
  have w2: "size_list f ?w = size_list f (take 10 ?w) + size_list f (drop 10 ?w)"
    by (metis append_take_drop_id size_list_append)
  have w3: "size_list f (take 5 (drop 90 (drop 10 ?w))) \<le> size_list f (drop 10 ?w)"
    by (rule order_trans [OF size_list_take_le size_list_drop_le])
  from split w w2 w3 show ?thesis
    by (simp add: tiered_sample_def py_slice_def Let_def d50 d150 del: drop_drop)
qed

text \<open>
  \<^verbatim>\<open>_summarize_fantasy_rankings\<close>. The position-keyed case builds \<^verbatim>\<open>summarized\<close> and
  then leaves the \<^verbatim>\<open>if\<close> chain and the \<^verbatim>\<open>try\<close> without a \<^verbatim>\<open>return\<close> (the next
  statement after line 985 is the end of the function), so the call returns \<^verbatim>\<open>None\<close>.
  Nothing in the body of the \<^verbatim>\<open>try\<close> can raise on the values of \<^typ>\<open>pyval\<close>, so the
  handler in lines 1034 to 1036 is never entered. The interpreter's limit on the depth
  of recursion is not part of the model.
\<close>

function summarize_fantasy_rankings :: "pyval \<Rightarrow> pyval" where
  "summarize_fantasy_rankings rankings_data =
     (if \<not> truthy rankings_data then PDict [(''summary'', PStr rankings_filler)]
      else
        case rankings_data of
          PList players \<Rightarrow>
            if 200 < length players
            then PList (process_large_player_list_chunked players)
            else PList (summarize_players players [])
        | PDict d \<Rightarrow>
            if list_ex (dict_has d) position_keys
            then (let summarized = position_keyed_summary d in PNone)
            else if dict_has d ''data'' \<and> is_list_or_dict (dict_get d ''data'' PNone)
            then summarize_fantasy_rankings (dict_get d ''data'' PNone)
            else
              (let summarized = [(''metadata'', PDict (rankings_metadata d)),
                                 (''players_sample'', PList [])]
               in if dict_has d ''players'' \<and> is_list (dict_get d ''players'' PNone)
                  then PDict (dict_set summarized ''players_sample''
                                (summarize_fantasy_rankings (dict_get d ''players'' PNone)))
                  else
                    case first_player_list d of
                      None \<Rightarrow> PDict summarized
                    | Some v \<Rightarrow>
                        if 30 < length v
                        then PDict (dict_set summarized ''players_sample''
                                      (summarize_fantasy_rankings (PList (tiered_sample v))))
                        else PDict (dict_set summarized ''players_sample''
                                      (summarize_fantasy_rankings (PList (take 30 v)))))
        | _ \<Rightarrow> PDict [(''summary'', PStr ''Rankings data available but in unexpected format'')])"
  by pat_completeness auto
termination
proof (relation "measure size", goal_cases)
  case 1
  then show ?case by simp
next
  case (2 rankings_data d)
  then have "dict_has d ''data''" by simp
  from size_dict_get [OF this, of PNone] show ?case using 2 by simp
next
  case (3 rankings_data d summarized)
  then have "dict_has d ''players''" by simp
  from size_dict_get [OF this, of PNone] show ?case using 3 by simp
next
  case (4 rankings_data d summarized v)
  then obtain k where "(k, PList v) \<in> set d"
    by (auto dest: first_player_list_entry)
  from size_dict_entry [OF this] size_list_tiered_sample [of size v]
  show ?case using 4 by simp
next
  case (5 rankings_data d summarized v)
  then obtain k where "(k, PList v) \<in> set d"
    by (auto dest: first_player_list_entry)
  from size_dict_entry [OF this] size_list_take_le [of size 30 v]
  show ?case using 5 by simp
qed

declare summarize_fantasy_rankings.simps [simp del]

text \<open>
  Words for the properties of the list branch: the well-formed records of a list are its
  dictionaries, the summary of an element, and the identity field of a record (what the
  summary stores under \<^verbatim>\<open>name\<close>) and of a summary.
\<close>

definition is_dict :: "pyval \<Rightarrow> bool" where
  "is_dict v = (case v of PDict d \<Rightarrow> True | _ \<Rightarrow> False)"

definition summary_of :: "pyval \<Rightarrow> pyval" where
  "summary_of v = (case v of PDict p \<Rightarrow> PDict (player_summary p) | _ \<Rightarrow> PNone)"

definition record_identity :: "pyval \<Rightarrow> pyval" where
  "record_identity v =
     (case v of
        PDict p \<Rightarrow> dict_get p ''display_name'' (dict_get p ''name'' (PStr []))
      | _ \<Rightarrow> PNone)"

definition summary_identity :: "pyval \<Rightarrow> pyval" where
  "summary_identity v = (case v of PDict s \<Rightarrow> dict_get s ''name'' PNone | _ \<Rightarrow> PNone)"

text \<open>
  The records that a summary retains for a position: the list under that key when the
  summary is a dictionary that has one, and none otherwise.
\<close>

definition retained_records :: "pyval \<Rightarrow> string \<Rightarrow> pyval list" where
  "retained_records summary position =
     (case summary of
        PDict s \<Rightarrow> (case map_of s position of Some (PList records) \<Rightarrow> records | _ \<Rightarrow> [])
      | _ \<Rightarrow> [])"

section \<open>Operations that can raise\<close>

text \<open>
  A computation that can raise returns \<^typ>\<open>error + 'a\<close>; \<open>and_then\<close> runs the next
  statement when the first did not raise.
\<close>

definition and_then :: "error + 'a \<Rightarrow> ('a \<Rightarrow> error + 'b) \<Rightarrow> error + 'b" where
  "and_then r f = (case r of Inl e \<Rightarrow> Inl e | Inr x \<Rightarrow> f x)"

text \<open>\<^verbatim>\<open>v.get(k, dflt)\<close> on any value: only a dictionary has the method.\<close>

fun py_get :: "pyval \<Rightarrow> string \<Rightarrow> pyval \<Rightarrow> error + pyval" where
  "py_get (PDict d) k dflt = Inr (dict_get d k dflt)"
| "py_get v k dflt = Inl (no_attribute v ''get'')"

text \<open>\<^verbatim>\<open>v.items()\<close> on any value.\<close>

fun py_items :: "pyval \<Rightarrow> error + pydict" where
  "py_items (PDict d) = Inr d"
| "py_items v = Inl (no_attribute v ''items'')"

text \<open>
  \<^verbatim>\<open>k in v\<close> for a string \<open>k\<close>: a key of a dictionary, an element of a list, a
  substring of a string; the other values are no containers. The messages of the type
  errors are the ones of CPython 3.11.
\<close>

fun py_in :: "string \<Rightarrow> pyval \<Rightarrow> error + bool" where
  "py_in k (PDict d) = Inr (dict_has d k)"
| "py_in k (PList l) = Inr (PStr k \<in> set l)"
| "py_in k (PStr s) = Inr (str_contains s k)"
| "py_in k v =
     Inl (TypeError (''argument of type '' @ quote @ type_name v @ quote @ '' is not iterable''))"

text \<open>\<^verbatim>\<open>v[k]\<close> for a string \<open>k\<close>.\<close>

fun py_getitem :: "pyval \<Rightarrow> string \<Rightarrow> error + pyval" where
  "py_getitem (PDict d) k =
     (case map_of d k of None \<Rightarrow> Inl (KeyError (quote @ k @ quote)) | Some v \<Rightarrow> Inr v)"
| "py_getitem (PList l) k = Inl (TypeError ''list indices must be integers or slices, not str'')"
| "py_getitem (PStr s) k =
     Inl (TypeError (''string indices must be integers, not '' @ quote @ ''str'' @ quote))"
| "py_getitem v k =
     Inl (TypeError (quote @ type_name v @ quote @ '' object is not subscriptable''))"

section \<open>Summarizing a boxscore\<close>

text \<open>
  A dictionary display whose values are \<^verbatim>\<open>section.get(key, dflt)\<close>, evaluated in order:
  the triples are the key of the display, the key looked up and the default.
\<close>

fun get_fields :: "pyval \<Rightarrow> (string \<times> string \<times> pyval) list \<Rightarrow> error + pydict" where
  "get_fields v [] = Inr []"
| "get_fields v ((out, k, dflt) # fields) =
     and_then (py_get v k dflt) (\<lambda>x.
     and_then (get_fields v fields) (\<lambda>rest.
     Inr ((out, x) # rest)))"

text \<open>
  One block of \<^verbatim>\<open>_extract_key_stats\<close>:
  \<^verbatim>\<open>if key in stats: key_stats[key] = {out: stats[key].get(k, dflt), ...}\<close>.
\<close>

definition stat_block ::
  "pyval \<Rightarrow> string \<Rightarrow> (string \<times> string \<times> pyval) list \<Rightarrow> pydict \<Rightarrow> error + pydict"
where
  "stat_block stats key fields key_stats =
     and_then (py_in key stats) (\<lambda>present.
       if present
       then and_then (py_getitem stats key) (\<lambda>section.
            and_then (get_fields section fields) (\<lambda>vs.
            Inr (dict_set key_stats key (PDict vs))))
       else Inr key_stats)"

definition team_fields :: "(string \<times> string \<times> pyval) list" where
  "team_fields =
     [(''first_downs'', ''first_downs'', PInt 0),
      (''total_yards'', ''total_yards'', PInt 0),
      (''penalties'', ''penalties'', PInt 0),
      (''penalty_yards'', ''penalty_yards'', PInt 0),
      (''turnovers'', ''turnovers'', PInt 0),
      (''time_of_possession'', ''possession_time'', PStr [])]"

definition passing_fields :: "(string \<times> string \<times> pyval) list" where
  "passing_fields =
     [(''completions'', ''completions'', PInt 0),
      (''attempts'', ''attempts'', PInt 0),
      (''yards'', ''yards'', PInt 0),
      (''touchdowns'', ''touchdowns'', PInt 0),
      (''interceptions'', ''interceptions'', PInt 0)]"

definition rushing_fields :: "(string \<times> string \<times> pyval) list" where
  "rushing_fields =
     [(''attempts'', ''attempts'', PInt 0),
      (''yards'', ''yards'', PInt 0),
      (''touchdowns'', ''touchdowns'', PInt 0)]"

definition receiving_fields :: "(string \<times> string \<times> pyval) list" where
  "receiving_fields =
     [(''receptions'', ''receptions'', PInt 0),
      (''yards'', ''yards'', PInt 0),
      (''touchdowns'', ''touchdowns'', PInt 0)]"

text \<open>\<^verbatim>\<open>_extract_key_stats(stats)\<close>, lines 818 to 863.\<close>

definition extract_key_stats :: "pyval \<Rightarrow> error + pyval" where
  "extract_key_stats stats =
     (if \<not> truthy stats then Inr (PDict [])
      else
        and_then (stat_block stats ''team'' team_fields []) (\<lambda>k1.
        and_then (stat_block stats ''passing'' passing_fields k1) (\<lambda>k2.
        and_then (stat_block stats ''rushing'' rushing_fields k2) (\<lambda>k3.
        and_then (stat_block stats ''receiving'' receiving_fields k3) (\<lambda>k4.
        Inr (PDict k4))))))"

text \<open>\<^verbatim>\<open>data.get(side, {}).get(key, dflt)\<close>.\<close>

definition side_get :: "pyval \<Rightarrow> string \<Rightarrow> string \<Rightarrow> pyval \<Rightarrow> error + pyval" where
  "side_get data side key dflt =
     and_then (py_get data side (PDict [])) (\<lambda>team. py_get team key dflt)"

text \<open>
  The inner display of \<^verbatim>\<open>_summarize_boxscore\<close> for one side (lines 801 to 807 for
  \<^verbatim>\<open>home\<close>, 808 to 814 for \<^verbatim>\<open>away\<close>).
\<close>

definition boxscore_side :: "pyval \<Rightarrow> string \<Rightarrow> string \<Rightarrow> error + pyval" where
  "boxscore_side data side points_key =
     and_then (side_get data side ''name'' (PStr [])) (\<lambda>name.
     and_then (side_get data side ''alias'' (PStr [])) (\<lambda>alias.
     and_then (py_get data points_key (PInt 0)) (\<lambda>points.
     and_then (side_get data side ''scoring'' (PList [])) (\<lambda>scoring.
     and_then (side_get data side ''statistics'' (PDict [])) (\<lambda>statistics.
     and_then (extract_key_stats statistics) (\<lambda>key_stats.
     Inr (PDict [(''name'', name), (''alias'', alias), (''points'', points),
                 (''scoring'', scoring), (''statistics'', key_stats)])))))))"

text \<open>
  \<^verbatim>\<open>_summarize_boxscore(data)\<close>, lines 795 to 816. The function has no \<^verbatim>\<open>try\<close>: an
  exception of any \<^verbatim>\<open>get\<close> leaves it.
\<close>

definition summarize_boxscore :: "pyval \<Rightarrow> error + pyval" where
  "summarize_boxscore data =
     and_then (py_get data ''id'' (PStr [])) (\<lambda>ident.
     and_then (py_get data ''status'' (PStr [])) (\<lambda>status.
     and_then (py_get data ''scheduled'' (PStr [])) (\<lambda>scheduled.
     and_then (boxscore_side data ''home'' ''home_points'') (\<lambda>home.
     and_then (boxscore_side data ''away'' ''away_points'') (\<lambda>away.
     Inr (PDict [(''id'', ident), (''status'', status), (''scheduled'', scheduled),
                 (''home'', home), (''away'', away)]))))))"

section \<open>Summarizing draft projections\<close>

text \<open>
  The five fields every player summary of \<^verbatim>\<open>_summarize_draft_projections\<close> and of its
  chunked helper starts with, and a \<^verbatim>\<open>projections\<close> display whose values are
  \<^verbatim>\<open>player.get(key, "")\<close>.
\<close>

definition draft_base :: "string \<Rightarrow> nat \<Rightarrow> pydict \<Rightarrow> pydict" where
  "draft_base position rank player =
     [(''rank'', PInt (int rank)),
      (''name'', dict_get player ''name'' (PStr [])),
      (''team'', dict_get player ''team'' (PStr [])),
      (''position'', dict_get player ''position'' (PStr position)),
      (''player_id'', dict_get player ''playerId'' (PStr []))]"

definition stat_display :: "pydict \<Rightarrow> (string \<times> string) list \<Rightarrow> pyval" where
  "stat_display player fields =
     PDict (map (\<lambda>(out, k). (out, dict_get player k (PStr []))) fields)"

text \<open>Lines 1519 to 1533: a kicker.\<close>

definition kicker_summary :: "string \<Rightarrow> nat \<Rightarrow> pydict \<Rightarrow> pydict" where
  "kicker_summary position rank player =
     dict_set (draft_base position rank player) ''projections''
       (stat_display player
          [(''field_goals'', ''field_goals_made''),
           (''extra_points'', ''extra_points_made''),
           (''field_goal_attempts'', ''field_goals_attempted''),
           (''extra_point_attempts'', ''extra_points_attempted'')])"

text \<open>Lines 1547 to 1570: a player of a position with at most 30 players.\<close>

definition direct_summary :: "string \<Rightarrow> nat \<Rightarrow> pydict \<Rightarrow> pydict" where
  "direct_summary position rank player =
     (let s = draft_base position rank player
      in if position = ''QB''
         then dict_set s ''projections''
                (stat_display player
                   [(''passing_yards'', ''passing_yards''),
                    (''passing_touchdowns'', ''passing_touchdowns''),
                    (''rushing_yards'', ''rushing_yards''),
                    (''rushing_touchdowns'', ''rushing_touchdowns'')])
         else if position \<in> set [''RB'', ''WR'', ''TE'']
         then dict_set s ''projections''
                (stat_display player
                   [(''rushing_yards'', ''rushing_yards''),
                    (''rushing_touchdowns'', ''rushing_touchdowns''),
                    (''receiving_yards'', ''receiving_yards''),
                    (''receiving_touchdowns'', ''receiving_touchdowns''),
                    (''receptions'', ''receptions'')])
         else s)"

text \<open>Lines 1770 to 1809: a player in the chunked processing.\<close>

definition chunked_summary :: "string \<Rightarrow> nat \<Rightarrow> pydict \<Rightarrow> pydict" where
  "chunked_summary position rank player =
     (let s = draft_base position rank player
      in if position = ''QB''
         then dict_set s ''projections''
                (stat_display player
                   [(''passing_yards'', ''passing_yards''),
                    (''passing_touchdowns'', ''passing_touchdowns''),
                    (''rushing_yards'', ''rushing_yards''),
                    (''rushing_touchdowns'', ''rushing_touchdowns''),
                    (''interceptions'', ''interceptions''),
                    (''fumbles'', ''fumbles'')])
         else if position \<in> set [''RB'', ''WR'', ''TE'']
         then dict_set s ''projections''
                (stat_display player
                   [(''rushing_yards'', ''rushing_yards''),
                    (''rushing_touchdowns'', ''rushing_touchdowns''),
                    (''receiving_yards'', ''receiving_yards''),
                    (''receiving_touchdowns'', ''receiving_touchdowns''),
                    (''receptions'', ''receptions''),
                    (''fumbles'', ''fumbles'')])
         else if position = ''K''
         then dict_set s ''projections''
                (stat_display player
                   [(''field_goals'', ''field_goals''),
                    (''extra_points'', ''extra_points''),
                    (''field_goal_attempts'', ''field_goal_attempts'')])
         else if position = ''DEF''
         then dict_set s ''projections''
                (stat_display player
                   [(''sacks'', ''sacks''),
                    (''interceptions'', ''interceptions''),
                    (''fumble_recoveries'', ''fumble_recoveries''),
                    (''defensive_touchdowns'', ''defensive_touchdowns'')])
         else s)"

text \<open>
  \<^verbatim>\<open>for rank, player in enumerate(players, rank): if isinstance(player, dict): ...\<close>,
  appending to the summaries built so far. An element that is not a dictionary is
  skipped and still counts for the rank.
\<close>

fun enumerate_players ::
  "(nat \<Rightarrow> pydict \<Rightarrow> pydict) \<Rightarrow> nat \<Rightarrow> pyval list \<Rightarrow> pyval list \<Rightarrow> pyval list"
where
  "enumerate_players f rank [] summarized = summarized"
| "enumerate_players f rank (player # rest) summarized =
     (case player of
        PDict p \<Rightarrow> enumerate_players f (Suc rank) rest (summarized @ [PDict (f rank p)])
      | _ \<Rightarrow> enumerate_players f (Suc rank) rest summarized)"

text \<open>
  \<^verbatim>\<open>_process_large_player_list_chunked_draft_projections\<close>: chunks of 75, ranks that
  start at \<^verbatim>\<open>i + 1\<close> in each chunk. As in the other chunked function nothing in the body
  of the \<^verbatim>\<open>try\<close> can raise, and the handler in lines 1816 to 1819 is never entered.
\<close>

definition draft_chunk_size :: nat where
  "draft_chunk_size = 75"

function draft_chunk_loop :: "string \<Rightarrow> nat \<Rightarrow> pyval list \<Rightarrow> pyval list \<Rightarrow> pyval list" where
  "draft_chunk_loop position i players_list all_summarized =
     (let total_players = length players_list
      in if i < total_players
         then let chunk_end = min (i + draft_chunk_size) total_players;
                  chunk = py_slice players_list i chunk_end
              in draft_chunk_loop position (i + draft_chunk_size) players_list
                   (enumerate_players (chunked_summary position) (i + 1) chunk all_summarized)
         else all_summarized)"
  by pat_completeness auto
termination
  by (relation "measure (\<lambda>(position, i, players_list, all_summarized). length players_list - i)")
     (auto simp: draft_chunk_size_def)

declare draft_chunk_loop.simps [simp del]

definition process_large_player_list_chunked_draft_projections ::
  "pyval list \<Rightarrow> string \<Rightarrow> pyval list"
where
  "process_large_player_list_chunked_draft_projections players_list position =
     draft_chunk_loop position 0 players_list []"

text \<open>
  One round of \<^verbatim>\<open>for position, players in projections.items()\<close> (lines 1507 to 1577),
  on the dictionary \<^verbatim>\<open>summarized["positions"]\<close>.
\<close>

definition draft_position_step :: "string \<times> pyval \<Rightarrow> pydict \<Rightarrow> pydict" where
  "draft_position_step item positions =
     (case item of
        (position, PList players) \<Rightarrow>
          if players \<noteq> []
          then
            (let total_players = length players;
                 position_data =
                   (if position = ''K''
                    then enumerate_players (kicker_summary position) 1 players []
                    else if 30 < total_players
                    then process_large_player_list_chunked_draft_projections players position
                    else enumerate_players (direct_summary position) 1 players [])
             in dict_set positions position
                  (PDict [(''count'', PInt (int total_players)),
                          (''all_players'', PList position_data)]))
          else positions
      | _ \<Rightarrow> positions)"

text \<open>
  The body of the \<^verbatim>\<open>try\<close> of \<^verbatim>\<open>_summarize_draft_projections\<close> (lines 1492 to 1582) and
  the function with its handler (lines 1584 to 1586).
\<close>

definition draft_projections_body :: "pyval \<Rightarrow> error + pyval" where
  "draft_projections_body projections_data =
     (if \<not> truthy projections_data
      then Inr (PDict [(''summary'', PStr ''No draft projections data available'')])
      else
        and_then (py_in ''projections'' projections_data) (\<lambda>present.
          if present
          then and_then (py_getitem projections_data ''projections'') (\<lambda>projections.
               and_then (py_get projections_data ''season'' (PStr ''Unknown'')) (\<lambda>season.
               and_then (py_items projections) (\<lambda>items.
               Inr (PDict [(''season'', season),
                           (''positions'', PDict (fold draft_position_step items []))]))))
          else Inr (summarize_fantasy_rankings projections_data)))"

definition summarize_draft_projections :: "pyval \<Rightarrow> pyval" where
  "summarize_draft_projections projections_data =
     (case draft_projections_body projections_data of
        Inr summarized \<Rightarrow> summarized
      | Inl e \<Rightarrow>
          PDict [(''summary'', PStr ''Draft projections data available but could not be summarized''),
                 (''error'', PStr (str_of_error e))])"

section \<open>Prioritizing mentioned players in rankings data\<close>

text \<open>
  The position-keyed case of \<^verbatim>\<open>_prioritize_mentioned_players_in_fantasy_rankings\<close>
  (lines 2060 to 2064): the loop over \<^verbatim>\<open>rankings_data.items()\<close>, updating the copy
  \<^verbatim>\<open>modified_rankings\<close>.
\<close>

fun prioritize_positions :: "string list \<Rightarrow> pydict \<Rightarrow> pydict \<Rightarrow> error + pydict" where
  "prioritize_positions mentioned_players [] modified_rankings = Inr modified_rankings"
| "prioritize_positions mentioned_players ((position, players) # rest) modified_rankings =
     (case players of
        PList l \<Rightarrow>
          if position \<in> set [''season'', ''metadata'']
          then prioritize_positions mentioned_players rest modified_rankings
          else and_then (prioritize_players_in_list l mentioned_players) (\<lambda>r.
                 prioritize_positions mentioned_players rest
                   (dict_set modified_rankings position (PList r)))
      | _ \<Rightarrow> prioritize_positions mentioned_players rest modified_rankings)"

definition list_of :: "pyval \<Rightarrow> pyval list" where
  "list_of v = (case v of PList l \<Rightarrow> l | _ \<Rightarrow> [])"

text \<open>
  \<^verbatim>\<open>_prioritize_mentioned_players_in_fantasy_rankings(rankings_data, mentioned_players,
  endpoint_type)\<close>, lines 2030 to 2082; the third argument is only printed.
\<close>

function prioritize_mentioned_players_in_fantasy_rankings ::
  "pyval \<Rightarrow> string list \<Rightarrow> error + pyval"
where
  "prioritize_mentioned_players_in_fantasy_rankings rankings_data mentioned_players =
     (if mentioned_players = [] \<or> \<not> truthy rankings_data then Inr rankings_data
      else
        case rankings_data of
          PList l \<Rightarrow>
            and_then (prioritize_players_in_list l mentioned_players) (\<lambda>r. Inr (PList r))
        | PDict d \<Rightarrow>
            if list_ex (dict_has d) position_keys
            then and_then (prioritize_positions mentioned_players d d) (\<lambda>m. Inr (PDict m))
            else if dict_has d ''players'' \<and> is_list (dict_get d ''players'' PNone)
            then and_then
                   (prioritize_players_in_list (list_of (dict_get d ''players'' PNone))
                      mentioned_players)
                   (\<lambda>r. Inr (PDict (dict_set d ''players'' (PList r))))
            else if dict_has d ''players_sample'' \<and> is_list (dict_get d ''players_sample'' PNone)
            then and_then
                   (prioritize_players_in_list (list_of (dict_get d ''players_sample'' PNone))
                      mentioned_players)
                   (\<lambda>r. Inr (PDict (dict_set d ''players_sample'' (PList r))))
            else if dict_has d ''data''
            then and_then
                   (prioritize_mentioned_players_in_fantasy_rankings (dict_get d ''data'' PNone)
                      mentioned_players)
                   (\<lambda>r. Inr (PDict (dict_set d ''data'' r)))
            else Inr (PDict d)
        | _ \<Rightarrow> Inr rankings_data)"
  by pat_completeness auto
termination
proof (relation "measure (\<lambda>(rankings_data, mentioned_players). size rankings_data)", goal_cases)
  case 1
  then show ?case by simp
next
  case (2 rankings_data mentioned_players d)
  then have "dict_has d ''data''" by simp
  from size_dict_get [OF this, of PNone] show ?case using 2 by simp
qed

declare prioritize_mentioned_players_in_fantasy_rankings.simps [simp del]

section \<open>Summarizing the context bundle\<close>

text \<open>
  \<^verbatim>\<open>_summarize_context_data\<close> calls one summarizer for each category of the bundle. The
  summarizers and prioritizers that no property below depends on are parameters of the
  model: each is any function from its argument to a value or an exception, and every
  theorem about the bundle holds for all of them.
\<close>

record summarizers =
  summarize_league_structure :: "pyval \<Rightarrow> error + pyval"
  summarize_standings_data :: "pyval \<Rightarrow> error + pyval"
  summarize_schedule_data :: "pyval \<Rightarrow> error + pyval"
  summarize_team_profile :: "pyval \<Rightarrow> error + pyval"
  summarize_injury_data :: "pyval \<Rightarrow> error + pyval"
  summarize_team_injuries :: "pyval \<Rightarrow> error + pyval"
  summarize_games :: "pyval \<Rightarrow> error + pyval"
  prioritize_mentioned_players_in_ros :: "pyval \<Rightarrow> string list \<Rightarrow> error + pyval"
  summarize_ros_projections :: "pyval \<Rightarrow> error + pyval"
  summarize_news_data :: "pyval \<Rightarrow> error + pyval"
  summarize_players_data :: "pyval \<Rightarrow> error + pyval"
  summarize_depth_charts :: "pyval \<Rightarrow> error + pyval"
  summarize_player_details :: "pyval \<Rightarrow> error + pyval"
  summarize_bye_weeks :: "pyval \<Rightarrow> error + pyval"
  summarize_add_drops :: "pyval \<Rightarrow> error + pyval"
  summarize_weather_data :: "pyval \<Rightarrow> error + pyval"
  prioritize_mentioned_players_in_draft_projections :: "pyval \<Rightarrow> string list \<Rightarrow> error + pyval"
  summarize_dfs_data :: "pyval \<Rightarrow> error + pyval"
  summarize_dfs_slates :: "pyval \<Rightarrow> error + pyval"
  summarize_nfl_picks :: "pyval \<Rightarrow> error + pyval"
  prioritize_mentioned_teams_in_standings :: "pyval \<Rightarrow> string list \<Rightarrow> error + pyval"

text \<open>\<^verbatim>\<open>if key in data: summarized[out] = f(data[key])\<close>.\<close>

definition category_step ::
  "string \<Rightarrow> string \<Rightarrow> (pyval \<Rightarrow> error + pyval) \<Rightarrow> pydict \<Rightarrow> pydict \<Rightarrow> error + pydict"
where
  "category_step key out f data summarized =
     (if dict_has data key
      then and_then (f (dict_get data key PNone)) (\<lambda>r. Inr (dict_set summarized out r))
      else Inr summarized)"

text \<open>
  \<^verbatim>\<open>for team_code, x in data[key].items(): summarized[key][team_code] = f(x)\<close>, on the
  dictionary \<^verbatim>\<open>summarized[key]\<close>.
\<close>

fun per_team_loop :: "(pyval \<Rightarrow> error + pyval) \<Rightarrow> pydict \<Rightarrow> pydict \<Rightarrow> error + pydict" where
  "per_team_loop f [] teams = Inr teams"
| "per_team_loop f ((team_code, x) # rest) teams =
     and_then (f x) (\<lambda>r. per_team_loop f rest (dict_set teams team_code r))"

definition per_team_step ::
  "string \<Rightarrow> (pyval \<Rightarrow> error + pyval) \<Rightarrow> pydict \<Rightarrow> pydict \<Rightarrow> error + pydict"
where
  "per_team_step key f data summarized =
     (if dict_has data key
      then and_then (py_items (dict_get data key PNone)) (\<lambda>items.
           and_then (per_team_loop f items []) (\<lambda>teams.
           Inr (dict_set summarized key (PDict teams))))
      else Inr summarized)"

text \<open>
  A category that is prioritized first when players are mentioned:
  \<^verbatim>\<open>if key in data: if mentioned_players: summarized[key] = f(p(data[key],
  mentioned_players)) else: summarized[key] = f(data[key])\<close>.
\<close>

definition prioritized_step ::
  "string \<Rightarrow> (pyval \<Rightarrow> string list \<Rightarrow> error + pyval) \<Rightarrow> (pyval \<Rightarrow> error + pyval) \<Rightarrow>
   string list \<Rightarrow> pydict \<Rightarrow> pydict \<Rightarrow> error + pydict"
where
  "prioritized_step key p f mentioned_players data summarized =
     (if dict_has data key
      then
        (if mentioned_players \<noteq> []
         then and_then (p (dict_get data key PNone) mentioned_players) (\<lambda>prioritized_data.
              and_then (f prioritized_data) (\<lambda>r. Inr (dict_set summarized key r)))
         else and_then (f (dict_get data key PNone)) (\<lambda>r. Inr (dict_set summarized key r)))
      else Inr summarized)"

text \<open>Lines 408 to 411: \<^verbatim>\<open>depth\<close>, or else \<^verbatim>\<open>depth_charts\<close>, both stored as \<^verbatim>\<open>depth\<close>.\<close>

definition depth_step :: "(pyval \<Rightarrow> error + pyval) \<Rightarrow> pydict \<Rightarrow> pydict \<Rightarrow> error + pydict" where
  "depth_step f data summarized =
     (if dict_has data ''depth'' then category_step ''depth'' ''depth'' f data summarized
      else category_step ''depth_charts'' ''depth'' f data summarized)"

text \<open>The summarizers of this model that cannot raise, as steps.\<close>

definition fantasy_rankings :: "pyval \<Rightarrow> error + pyval" where
  "fantasy_rankings v = Inr (summarize_fantasy_rankings v)"

definition draft_projections :: "pyval \<Rightarrow> error + pyval" where
  "draft_projections v = Inr (summarize_draft_projections v)"

text \<open>
  The statements of the \<^verbatim>\<open>try\<close> of \<^verbatim>\<open>_summarize_context_data\<close> (lines 321 to 464), in
  their order.
\<close>

definition context_steps ::
  "summarizers \<Rightarrow> pydict \<Rightarrow> string list \<Rightarrow> (pydict \<Rightarrow> error + pydict) list"
where
  "context_steps S data mentioned_players =
     [category_step ''league'' ''league_structure'' (summarize_league_structure S) data,
      category_step ''standings'' ''standings'' (summarize_standings_data S) data,
      category_step ''schedule'' ''schedule'' (summarize_schedule_data S) data,
      per_team_step ''team_profiles'' (summarize_team_profile S) data,
      category_step ''injuries'' ''injuries'' (summarize_injury_data S) data,
      per_team_step ''team_injuries'' (summarize_team_injuries S) data,
      category_step ''relevant_games'' ''relevant_games'' (summarize_games S) data,
      per_team_step ''team_games'' (summarize_games S) data,
      category_step ''boxscore'' ''boxscore'' summarize_boxscore data,
      prioritized_step ''draft_rankings'' prioritize_mentioned_players_in_fantasy_rankings
        fantasy_rankings mentioned_players data,
      prioritized_step ''weekly_rankings'' prioritize_mentioned_players_in_fantasy_rankings
        fantasy_rankings mentioned_players data,
      prioritized_step ''ros_projections'' (prioritize_mentioned_players_in_ros S)
        (summarize_ros_projections S) mentioned_players data,
      category_step ''news'' ''news'' (summarize_news_data S) data,
      category_step ''adp'' ''adp'' fantasy_rankings data,
      category_step ''player_tiers'' ''player_tiers'' fantasy_rankings data,
      category_step ''auction_values'' ''auction_values'' fantasy_rankings data,
      category_step ''best_ball'' ''best_ball'' fantasy_rankings data,
      category_step ''dynasty'' ''dynasty'' fantasy_rankings data,
      category_step ''fantasy_leaders'' ''fantasy_leaders'' fantasy_rankings data,
      category_step ''players'' ''players'' (summarize_players_data S) data,
      depth_step (summarize_depth_charts S) data,
      category_step ''weekly_projections'' ''weekly_projections'' fantasy_rankings data,
      category_step ''player_details'' ''player_details'' (summarize_player_details S) data,
      category_step ''defense_rankings'' ''defense_rankings'' fantasy_rankings data,
      category_step ''bye_weeks'' ''bye_weeks'' (summarize_bye_weeks S) data,
      category_step ''add_drops'' ''add_drops'' (summarize_add_drops S) data,
      category_step ''weather'' ''weather'' (summarize_weather_data S) data,
      prioritized_step ''draft_projections''
        (prioritize_mentioned_players_in_draft_projections S) draft_projections
        mentioned_players data,
      category_step ''dfs'' ''dfs'' (summarize_dfs_data S) data,
      category_step ''dfs_slates'' ''dfs_slates'' (summarize_dfs_slates S) data,
      category_step ''idp_draft'' ''idp_draft'' fantasy_rankings data,
      category_step ''idp_weekly'' ''idp_weekly'' fantasy_rankings data,
      category_step ''nfl_picks'' ''nfl_picks'' (summarize_nfl_picks S) data]"

text \<open>Statements in sequence: the first exception ends the run.\<close>

fun run_steps :: "(pydict \<Rightarrow> error + pydict) list \<Rightarrow> pydict \<Rightarrow> error + pydict" where
  "run_steps [] summarized = Inr summarized"
| "run_steps (step # steps) summarized = and_then (step summarized) (run_steps steps)"

text \<open>
  \<^verbatim>\<open>try: body except Exception as e: handler\<close>: the handler takes over when the body
  raises.
\<close>

definition try_except :: "error + 'a \<Rightarrow> (error \<Rightarrow> error + 'a) \<Rightarrow> error + 'a" where
  "try_except body handler = (case body of Inl e \<Rightarrow> handler e | Inr x \<Rightarrow> Inr x)"

text \<open>The object that the handler in lines 466 to 473 returns.\<close>

definition context_fallback_text :: string where
  "context_fallback_text = ''According to the Fantasy Nerds data, the NFL analytics show comprehensive information about players, teams, and statistics across the league.''"

definition context_fallback :: "error \<Rightarrow> pyval" where
  "context_fallback e =
     PDict [(''summary'', PStr context_fallback_text), (''error'', PStr (str_of_error e))]"

text \<open>
  \<^verbatim>\<open>_summarize_context_data(data, mentioned_players, mentioned_teams)\<close>, lines 308 to
  473, for a bundle \<open>data\<close> that is a dictionary. The container \<^verbatim>\<open>summarized\<close> starts with
  \<^verbatim>\<open>query_type\<close> and \<^verbatim>\<open>metadata\<close>; \<^verbatim>\<open>mentioned_teams\<close> is not used by the function.
  An absent or \<^verbatim>\<open>None\<close> list of mentions is the empty list.
\<close>

definition initial_summary :: "pydict \<Rightarrow> pydict" where
  "initial_summary data =
     [(''query_type'', dict_get data ''query_type'' (PStr ''unknown'')),
      (''metadata'', dict_get data ''metadata'' (PDict []))]"

definition summarize_context_body ::
  "summarizers \<Rightarrow> pydict \<Rightarrow> string list \<Rightarrow> error + pydict"
where
  "summarize_context_body S data mentioned_players =
     run_steps (context_steps S data mentioned_players) (initial_summary data)"

definition summarize_context_data ::
  "summarizers \<Rightarrow> pydict \<Rightarrow> string list \<Rightarrow> string list \<Rightarrow> error + pyval"
where
  "summarize_context_data S data mentioned_players mentioned_teams =
     try_except
       (and_then (summarize_context_body S data mentioned_players)
          (\<lambda>summarized. Inr (PDict summarized)))
       (\<lambda>e. Inr (context_fallback e))"

section \<open>Serializing to JSON\<close>

text \<open>
  \<^verbatim>\<open>json.dumps(obj, indent=2)\<close> with the defaults of the \<^verbatim>\<open>json\<close> module: strings are
  escaped to ASCII, items are separated by a comma and a line break, a key and its value
  by a colon and a space, and each nesting level indents by two spaces. An integer is
  written in decimal.
\<close>

definition hex_digit :: "nat \<Rightarrow> char" where
  "hex_digit n = ''0123456789abcdef'' ! (n mod 16)"

definition backslash :: char where
  "backslash = CHR 0x5C"

definition double_quote :: char where
  "double_quote = CHR 0x22"

text \<open>
  The escape of one character: the two-character escapes of the module, the character
  itself from the space to the tilde, and a \<^verbatim>\<open>\u00XX\<close> escape for the rest.
\<close>

definition json_escape_char :: "char \<Rightarrow> string" where
  "json_escape_char c =
     (let n = (of_char c :: nat)
      in if c = double_quote then [backslash, double_quote]
         else if c = backslash then [backslash, backslash]
         else if n = 10 then [backslash, CHR ''n'']
         else if n = 13 then [backslash, CHR ''r'']
         else if n = 9 then [backslash, CHR ''t'']
         else if n = 8 then [backslash, CHR ''b'']
         else if n = 12 then [backslash, CHR ''f'']
         else if 32 \<le> n \<and> n \<le> 126 then [c]
         else [backslash, CHR ''u'', CHR ''0'', CHR ''0'', hex_digit (n div 16), hex_digit n])"

definition json_string :: "string \<Rightarrow> string" where
  "json_string s = [double_quote] @ concat (map json_escape_char s) @ [double_quote]"

definition digit_char :: "nat \<Rightarrow> char" where
  "digit_char n = ''0123456789'' ! (n mod 10)"

function nat_repr :: "nat \<Rightarrow> string" where
  "nat_repr n = (if n < 10 then [digit_char n] else nat_repr (n div 10) @ [digit_char n])"
  by pat_completeness auto
termination
  by (relation "measure id") auto

declare nat_repr.simps [simp del]

definition int_repr :: "int \<Rightarrow> string" where
  "int_repr i = (if i < 0 then CHR ''-'' # nat_repr (nat (- i)) else nat_repr (nat i))"

text \<open>The line break and the indentation of a nesting level.\<close>

definition newline_indent :: "nat \<Rightarrow> string" where
  "newline_indent level = CHR 0x0A # replicate (2 * level) CHR '' ''"

fun join :: "string \<Rightarrow> string list \<Rightarrow> string" where
  "join sep [] = []"
| "join sep [x] = x"
| "join sep (x # y # ys) = x @ sep @ join sep (y # ys)"

fun json_encode :: "nat \<Rightarrow> pyval \<Rightarrow> string" where
  "json_encode level PNone = ''null''"
| "json_encode level (PBool b) = (if b then ''true'' else ''false'')"
| "json_encode level (PInt i) = int_repr i"
| "json_encode level (PStr s) = json_string s"
| "json_encode level (PList l) =
     (if l = [] then ''[]''
      else ''['' @ newline_indent (Suc level) @
           join ('','' @ newline_indent (Suc level)) (map (json_encode (Suc level)) l) @
           newline_indent level @ '']'')"
| "json_encode level (PDict d) =
     (if d = [] then ''{}''
      else ''{'' @ newline_indent (Suc level) @
           join ('','' @ newline_indent (Suc level))
             (map (\<lambda>item. json_string (fst item) @ '': '' @ json_encode (Suc level) (snd item)) d) @
           newline_indent level @ ''}'')"

definition json_dumps :: "pyval \<Rightarrow> string" where
  "json_dumps obj = json_encode 0 obj"

section \<open>The budget on the context string\<close>

text \<open>
  The part of \<^verbatim>\<open>generate_response\<close> that builds the context message, lines 104 to 218.
  \<^verbatim>\<open>max_context_size = 50000\<close>, and the marker that the final size check appends.
\<close>

definition max_context_size :: nat where
  "max_context_size = 50000"

definition truncation_marker :: string where
  "truncation_marker = ''...[additional data available - query for specific players]''"

text \<open>
  Lines 215 and 216: \<^verbatim>\<open>if len(context_str) > max_context_size: context_str =
  context_str[:max_context_size] + "...[additional data ...]"\<close>.
\<close>

definition final_size_check :: "string \<Rightarrow> string" where
  "final_size_check context_str =
     (if max_context_size < length context_str
      then take max_context_size context_str @ truncation_marker
      else context_str)"

text \<open>
  Lines 154 to 164 only print, but they evaluate expressions that can raise. The slice
  \<^verbatim>\<open>rb_players[:20]\<close> of a value, as the list of elements the loop runs over:
\<close>

fun first_twenty :: "pyval \<Rightarrow> error + pyval list" where
  "first_twenty (PList l) = Inr (take 20 l)"
| "first_twenty (PStr s) = Inr (map (\<lambda>c. PStr [c]) (take 20 s))"
| "first_twenty (PDict d) = Inl (TypeError (''unhashable type: '' @ quote @ ''slice'' @ quote))"
| "first_twenty v =
     Inl (TypeError (quote @ type_name v @ quote @ '' object is not subscriptable''))"

text \<open>
  The inner loop \<^verbatim>\<open>for player in rb_players[:20]\<close> for the words \<open>names\<close> of one mention
  (\<^verbatim>\<open>mentioned_player.split()\<close>): \<^verbatim>\<open>any(name.lower() in player.get("name", "").lower()
  for name in names)\<close>, which evaluates nothing when there is no word, and the
  \<^verbatim>\<open>break\<close> at the first player found.
\<close>

fun debug_find :: "string list \<Rightarrow> pyval list \<Rightarrow> error + bool" where
  "debug_find names [] = Inr False"
| "debug_find names (player # rest) =
     (if names = [] then debug_find names rest
      else
        and_then (py_get player ''name'' (PStr [])) (\<lambda>nm.
        and_then (lower_of nm) (\<lambda>player_name.
          if list_ex (\<lambda>name. str_contains player_name (py_lower name)) names
          then Inr True
          else debug_find names rest)))"

fun debug_mentions :: "string list \<Rightarrow> pyval list \<Rightarrow> error + unit" where
  "debug_mentions [] players = Inr ()"
| "debug_mentions (mentioned_player # rest) players =
     and_then (debug_find (py_split mentioned_player) players) (\<lambda>player_found.
       debug_mentions rest players)"

definition ros_debug_check :: "pyval \<Rightarrow> string list \<Rightarrow> error + unit" where
  "ros_debug_check ros mentioned_players =
     (if mentioned_players = [] then Inr ()
      else
        and_then (py_in ''RB'' ros) (\<lambda>present.
          if present
          then and_then (py_getitem ros ''RB'') (\<lambda>rb_players.
               and_then (first_twenty rb_players) (\<lambda>players.
               debug_mentions mentioned_players players))
          else Inr ()))"

text \<open>
  Lines 189 to 210: the first key of the fixed list that the context object has decides
  what is kept.
\<close>

definition fallback_keys :: "string list" where
  "fallback_keys =
     [''ros_projections'', ''draft_projections'', ''draft_rankings'', ''weekly_rankings'',
      ''dynasty'', ''best_ball'', ''adp'', ''player_tiers'', ''auction_values'']"

fun fallback_loop ::
  "summarizers \<Rightarrow> string list \<Rightarrow> pyval \<Rightarrow> string list \<Rightarrow> string list \<Rightarrow> pydict \<Rightarrow>
   error + pydict"
where
  "fallback_loop S [] context_obj mentioned_players mentioned_teams essential_data =
     Inr essential_data"
| "fallback_loop S (key # keys) context_obj mentioned_players mentioned_teams essential_data =
     and_then (py_in key context_obj) (\<lambda>present.
       if present
       then
         and_then (py_getitem context_obj key) (\<lambda>v.
           if mentioned_players \<noteq> [] \<and>
              key \<in> set [''weekly_rankings'', ''dynasty'', ''best_ball'', ''adp'', ''player_tiers'',
                         ''auction_values'']
           then and_then (prioritize_mentioned_players_in_fantasy_rankings v mentioned_players)
                  (\<lambda>r. Inr (dict_set essential_data key r))
           else if mentioned_teams \<noteq> [] \<and> key \<in> set [''standings'', ''league'', ''teams'']
           then (if key = ''standings''
                 then and_then (prioritize_mentioned_teams_in_standings S v mentioned_teams)
                        (\<lambda>r. Inr (dict_set essential_data key r))
                 else Inr (dict_set essential_data key v))
           else Inr (dict_set essential_data key v))
       else fallback_loop S keys context_obj mentioned_players mentioned_teams essential_data)"

text \<open>
  Lines 134 to 210: the reduced object \<^verbatim>\<open>essential_data\<close> built from the context object.
  \<^verbatim>\<open>a and b\<close> evaluates \<open>b\<close> only when \<open>a\<close> holds.
\<close>

definition initial_essential_data :: "pyval \<Rightarrow> pydict" where
  "initial_essential_data query_type =
     [(''query_type'', query_type),
      (''metadata'',
       PDict [(''note'', PStr ''Comprehensive dataset - metadata truncated for space'')])]"

definition essential_data_of ::
  "summarizers \<Rightarrow> pyval \<Rightarrow> string list \<Rightarrow> string list \<Rightarrow> error + pydict"
where
  "essential_data_of S context_obj mentioned_players mentioned_teams =
     and_then (py_get context_obj ''query_type'' (PStr [])) (\<lambda>query_type.
     let essential_data = initial_essential_data query_type in
     and_then (if query_type = PStr ''ros_projections''
               then py_in ''ros_projections'' context_obj else Inr False) (\<lambda>ros_case.
     if ros_case
     then
       and_then (py_getitem context_obj ''ros_projections'') (\<lambda>v.
       and_then (if mentioned_players \<noteq> []
                 then prioritize_mentioned_players_in_ros S v mentioned_players
                 else Inr v) (\<lambda>ros.
       and_then (ros_debug_check ros mentioned_players) (\<lambda>checked.
       Inr (dict_set essential_data ''ros_projections'' ros))))
     else
       and_then (if query_type = PStr ''draft_projections''
                 then py_in ''draft_projections'' context_obj else Inr False) (\<lambda>draft_case.
       if draft_case
       then
         and_then (py_getitem context_obj ''draft_projections'') (\<lambda>v.
         and_then (if mentioned_players \<noteq> []
                   then prioritize_mentioned_players_in_draft_projections S v mentioned_players
                   else Inr v) (\<lambda>r.
         Inr (dict_set essential_data ''draft_projections'' r)))
       else
         and_then (py_in ''draft_rankings'' context_obj) (\<lambda>has_rankings.
         and_then (if has_rankings
                   then and_then (py_getitem context_obj ''draft_rankings'')
                          (py_in ''players_sample'')
                   else Inr False) (\<lambda>rankings_case.
         if rankings_case
         then
           and_then (py_getitem context_obj ''draft_rankings'') (\<lambda>v.
           and_then (if mentioned_players \<noteq> []
                     then prioritize_mentioned_players_in_fantasy_rankings v mentioned_players
                     else Inr v) (\<lambda>r.
           Inr (dict_set essential_data ''draft_rankings'' r)))
         else
           fallback_loop S fallback_keys context_obj mentioned_players mentioned_teams
             essential_data)))))"

text \<open>
  Lines 104 to 218 for a bundle \<open>context_data\<close> that is a dictionary; the mention lists
  are the ones lines 45 to 59 computed. An empty bundle gets no context message
  (\<^verbatim>\<open>if context_data:\<close>). Otherwise the result is the string \<^verbatim>\<open>context_str\<close> that line 218
  appends to the messages, or the exception that leaves \<^verbatim>\<open>generate_response\<close> (no
  handler encloses these lines). \<^verbatim>\<open>json.loads\<close> gives back the object that was
  serialized.
\<close>

definition context_message ::
  "summarizers \<Rightarrow> pydict \<Rightarrow> string list \<Rightarrow> string list \<Rightarrow> error + string option"
where
  "context_message S context_data mentioned_players mentioned_teams =
     (if context_data = [] then Inr None
      else
        and_then (summarize_context_data S context_data mentioned_players mentioned_teams)
          (\<lambda>summarized_data.
        let context_str = json_dumps summarized_data in
        if max_context_size < length context_str
        then
          (let context_obj = summarized_data in
           and_then (essential_data_of S context_obj mentioned_players mentioned_teams)
             (\<lambda>essential_data.
           Inr (Some (final_size_check (json_dumps (PDict essential_data))))))
        else Inr (Some context_str)))"

text \<open>A query type of 50000 characters, for the examples of the budget.\<close>

definition long_text :: string where
  "long_text = replicate 50000 CHR ''a''"

definition long_bundle :: pydict where
  "long_bundle = [(''query_type'', PStr long_text)]"

definition long_essential_data :: pydict where
  "long_essential_data = initial_essential_data (PStr long_text)"

section \<open>The response cache\<close>

text \<open>
  \<^verbatim>\<open>llm_cache = {}\<close> and \<^verbatim>\<open>LLM_CACHE_TTL = 60 * 10\<close>. An entry is the pair
  \<^verbatim>\<open>(cached_time, cached_response)\<close> under the hexadecimal SHA-256 digest of
  \<^verbatim>\<open>query + str(context_data)\<close>; the digest comes from \<^verbatim>\<open>hashlib\<close> and is a string here.
  Times are the values of \<^verbatim>\<open>time.time()\<close>, read as real numbers of seconds.
\<close>

type_synonym llm_cache = "string \<rightharpoonup> (real \<times> string)"

definition LLM_CACHE_TTL :: real where
  "LLM_CACHE_TTL = 60 * 10"

text \<open>
  Lines 35 to 38 of \<^verbatim>\<open>generate_response\<close>: the early return on a fresh entry.
  \<^verbatim>\<open>None\<close> means that the function goes on to build the request.
\<close>

definition cache_check :: "llm_cache \<Rightarrow> string \<Rightarrow> real \<Rightarrow> string option" where
  "cache_check cache cache_key now =
     (case cache cache_key of
        None \<Rightarrow> None
      | Some (cached_time, cached_response) \<Rightarrow>
          if now - cached_time < LLM_CACHE_TTL then Some cached_response else None)"

text \<open>Line 238: \<^verbatim>\<open>llm_cache[cache_key] = (now, llm_response)\<close>.\<close>

definition cache_store :: "llm_cache \<Rightarrow> string \<Rightarrow> real \<Rightarrow> string \<Rightarrow> llm_cache" where
  "cache_store cache cache_key now llm_response = cache(cache_key \<mapsto> (now, llm_response))"

section \<open>Properties of the response cache\<close>

text \<open>
  Claim C3. A response stored for the fingerprint \<open>f\<close> at time \<open>t\<close> is returned by a read
  of \<open>f\<close> at every time \<open>t'\<close> with \<open>t' - t\<close> below the 600 second time-to-live, and a read at
  a time \<open>t'\<close> with \<open>t' - t\<close> of 600 seconds or more is a miss.
\<close>

theorem cache_store_then_check:
  "(t' - t < 600 \<longrightarrow> cache_check (cache_store cache f t v) f t' = Some v) \<and>
   (600 \<le> t' - t \<longrightarrow> cache_check (cache_store cache f t v) f t' = None)"
  by (simp add: cache_check_def cache_store_def LLM_CACHE_TTL_def)

theorem cache_store_then_check_witness:
  "cache_check (cache_store Map.empty ''k'' 1000 ''answer'') ''k'' 1599 = Some ''answer'' \<and>
   cache_check (cache_store Map.empty ''k'' 1000 ''answer'') ''k'' 1600 = None"
  using cache_store_then_check [of 1599 1000 Map.empty "''k''" "''answer''"]
        cache_store_then_check [of 1600 1000 Map.empty "''k''" "''answer''"]
  by simp

section \<open>Properties of the mention prioritizer\<close>

lemma mentioned_record_dict:
  "lower_of (name_field d) = Inr nm \<Longrightarrow>
   mentioned_record ms (PDict d) = is_mentioned nm ms"
  by (cases "name_field d")
     (auto simp: mentioned_record_def is_mentioned_def mention_matches_def list_ex_iff)

lemma first_pass_result:
  "first_pass ms ps pri rem = Inr (pri', rem') \<Longrightarrow>
   pri' = pri @ filter (mentioned_record ms) ps \<and>
   rem' = rem @ filter (\<lambda>p. \<not> mentioned_record ms p) ps"
proof (induction ps arbitrary: pri rem)
  case Nil
  then show ?case by simp
next
  case (Cons p ps)
  show ?case
  proof (cases p)
    case (PDict d)
    with Cons.prems obtain nm where nm: "lower_of (name_field d) = Inr nm"
      by (auto split: sum.splits)
    show ?thesis
    proof (cases "is_mentioned nm ms")
      case True
      with Cons.prems PDict nm
      have "first_pass ms ps (pri @ [p]) rem = Inr (pri', rem')" by simp
      from Cons.IH [OF this] True PDict nm show ?thesis
        by (simp add: mentioned_record_dict)
    next
      case False
      with Cons.prems PDict nm
      have "first_pass ms ps pri (rem @ [p]) = Inr (pri', rem')" by simp
      from Cons.IH [OF this] False PDict nm show ?thesis
        by (simp add: mentioned_record_dict)
    qed
  qed (use Cons in \<open>auto simp: mentioned_record_def dest!: Cons.IH\<close>)
qed

lemma first_pass_returns:
  "\<forall>p \<in> set ps. has_string_name p \<Longrightarrow> \<exists>r. first_pass ms ps pri rem = Inr r"
proof (induction ps arbitrary: pri rem)
  case Nil
  then show ?case by simp
next
  case (Cons p ps)
  then show ?case
    by (cases p) (auto simp: has_string_name_def split: pyval.splits)
qed


lemma length_slice_to_le: "0 \<le> k \<Longrightarrow> length (slice_to xs k) \<le> nat k"
  by (simp add: slice_to_def)




lemma prioritize_all_mentioned:
  assumes "mentioned_players \<noteq> []"
      and "\<forall>p \<in> set players_list. has_string_name p \<and> mentioned_record mentioned_players p"
  shows "prioritize_players_in_list players_list mentioned_players = Inr players_list"
proof (cases "players_list = []")
  case True
  then show ?thesis by (simp add: prioritize_players_in_list_def)
next
  case False
  from assms(2) first_pass_returns [of players_list mentioned_players "[]" "[]"]
  obtain pri rem where fp: "first_pass mentioned_players players_list [] [] = Inr (pri, rem)"
    by auto
  from assms(2) have "filter (mentioned_record mentioned_players) players_list = players_list"
    and "filter (\<lambda>p. \<not> mentioned_record mentioned_players p) players_list = []"
    by (simp_all add: filter_id_conv filter_empty_conv)
  with first_pass_result [OF fp] have "pri = players_list" and "rem = []" by simp_all
  with fp False assms(1) show ?thesis
    by (simp add: prioritize_players_in_list_def slice_to_def)
qed

text \<open>
  Claim C5 as stated fails: with 31 records that all match the mention, the output has
  31 records.
\<close>

theorem prioritize_players_in_list_cap_counterexample:
  "prioritize_players_in_list (replicate 31 (PDict [(''name'', PStr ''Smith'')])) [''Smith'']
     = Inr (replicate 31 (PDict [(''name'', PStr ''Smith'')])) \<and>
   \<not> length (replicate 31 (PDict [(''name'', PStr ''Smith'')])) \<le> 30"
proof -
  have "has_string_name (PDict [(''name'', PStr ''Smith'')])"
    by (simp add: has_string_name_def name_field_def dict_get_def)
  moreover have "mentioned_record [''Smith''] (PDict [(''name'', PStr ''Smith'')])"
    by code_simp
  ultimately show ?thesis
    by (simp add: prioritize_all_mentioned)
qed

text \<open>
  Claim C5, amended. For a non-empty mention list, when at most 30 records of the input
  are mentioned, the list that \<^verbatim>\<open>_prioritize_players_in_list\<close> returns has at most 30
  records.
\<close>

theorem prioritize_players_in_list_cap:
  assumes "mentioned_players \<noteq> []"
      and "prioritize_players_in_list players_list mentioned_players = Inr out"
      and "length (filter (mentioned_record mentioned_players) players_list) \<le> 30"
  shows "length out \<le> 30"
proof (cases "players_list = []")
  case True
  with assms show ?thesis by (simp add: prioritize_players_in_list_def)
next
  case False
  with assms obtain pri rem where
    fp: "first_pass mentioned_players players_list [] [] = Inr (pri, rem)" and
    o: "out = pri @ slice_to rem (max_players - int (length pri))"
    by (auto simp: prioritize_players_in_list_def split: sum.splits)
  from first_pass_result [OF fp] assms(3) have "length pri \<le> 30" by simp
  with length_slice_to_le [of "max_players - int (length pri)" rem] o
  show ?thesis by (simp add: max_players_def)
qed

theorem prioritize_players_in_list_cap_witness:
  "[''Mahomes''] \<noteq> [] \<and>
   prioritize_players_in_list
     [PDict [(''name'', PStr ''Josh Allen'')], PDict [(''name'', PStr ''Patrick Mahomes'')]]
     [''Mahomes'']
     = Inr [PDict [(''name'', PStr ''Patrick Mahomes'')], PDict [(''name'', PStr ''Josh Allen'')]] \<and>
   length (filter (mentioned_record [''Mahomes''])
     [PDict [(''name'', PStr ''Josh Allen'')], PDict [(''name'', PStr ''Patrick Mahomes'')]]) \<le> 30 \<and>
   length [PDict [(''name'', PStr ''Patrick Mahomes'')], PDict [(''name'', PStr ''Josh Allen'')]] \<le> 30"
proof -
  have m: "[''Mahomes''] \<noteq> []" by simp
  have r: "prioritize_players_in_list
     [PDict [(''name'', PStr ''Josh Allen'')], PDict [(''name'', PStr ''Patrick Mahomes'')]]
     [''Mahomes'']
     = Inr [PDict [(''name'', PStr ''Patrick Mahomes'')], PDict [(''name'', PStr ''Josh Allen'')]]"
    by code_simp
  have f: "length (filter (mentioned_record [''Mahomes''])
     [PDict [(''name'', PStr ''Josh Allen'')], PDict [(''name'', PStr ''Patrick Mahomes'')]]) \<le> 30"
    by (rule order_trans [OF length_filter_le]) simp
  from prioritize_players_in_list_cap [OF m r f] m r f show ?thesis by blast
qed

section \<open>Properties of the rankings summarizer\<close>

lemma summarize_players_eq:
  "summarize_players ps summarized = summarized @ map summary_of (filter is_dict ps)"
  by (induction ps arbitrary: summarized)
     (auto simp: is_dict_def summary_of_def split: pyval.splits)

lemma chunk_loop_eq:
  "chunk_loop i players_list all_summarized =
     all_summarized @ map summary_of (filter is_dict (drop i players_list))"
proof (induction i players_list all_summarized rule: chunk_loop.induct)
  case (1 i players_list all_summarized)
  show ?case
  proof (cases "i < length players_list")
    case True
    let ?chunk = "py_slice players_list i (min (i + chunk_size) (length players_list))"
    have chunk: "?chunk = take chunk_size (drop i players_list)"
      using True by (simp add: py_slice_def min_def)
    have rest: "drop (i + chunk_size) players_list = drop chunk_size (drop i players_list)"
      by (simp add: add.commute)
    have "chunk_loop i players_list all_summarized =
            chunk_loop (i + chunk_size) players_list (summarize_players ?chunk all_summarized)"
      using True by (subst chunk_loop.simps) (simp add: Let_def)
    also have "\<dots> = summarize_players ?chunk all_summarized @
            map summary_of (filter is_dict (drop (i + chunk_size) players_list))"
      using True by (intro "1.IH") simp_all
    also have "\<dots> = all_summarized @
            map summary_of (filter is_dict (take chunk_size (drop i players_list) @
                                           drop chunk_size (drop i players_list)))"
      unfolding chunk rest by (simp add: summarize_players_eq)
    finally show ?thesis by (simp only: append_take_drop_id)
  next
    case False
    then show ?thesis by (subst chunk_loop.simps) simp
  qed
qed

lemma summary_identity_summary_of:
  "summary_identity (summary_of (PDict p)) = record_identity (PDict p)"
  by (simp add: summary_identity_def summary_of_def record_identity_def player_summary_def
      dict_get_def dict_set_def Let_def update_conv')

lemma summaries_identity:
  "map summary_identity (map summary_of (filter is_dict ps)) = map record_identity (filter is_dict ps)"
proof -
  have "\<And>p. p \<in> set (filter is_dict ps) \<Longrightarrow> summary_identity (summary_of p) = record_identity p"
    by (auto simp: is_dict_def summary_identity_summary_of split: pyval.splits)
  then show ?thesis by simp
qed

text \<open>
  Claim C6. On a flat list of more than 200 elements \<^verbatim>\<open>_summarize_fantasy_rankings\<close>
  hands over to the chunked processing, which returns one summary for each dictionary
  of the list, in the order of the list, and the names in these summaries are the
  identity fields of the dictionaries of the list: no record is lost between chunks.
\<close>

theorem chunked_processing_covers_all_records:
  assumes "200 < length players_list"
  shows "summarize_fantasy_rankings (PList players_list) =
           PList (process_large_player_list_chunked players_list) \<and>
         process_large_player_list_chunked players_list =
           map summary_of (filter is_dict players_list) \<and>
         map summary_identity (process_large_player_list_chunked players_list) =
           map record_identity (filter is_dict players_list) \<and>
         set (map summary_identity (process_large_player_list_chunked players_list)) =
           set (map record_identity (filter is_dict players_list))"
proof -
  have p: "process_large_player_list_chunked players_list =
             map summary_of (filter is_dict players_list)"
    by (simp add: process_large_player_list_chunked_def chunk_loop_eq)
  from assms have "players_list \<noteq> []" by auto
  with assms have s: "summarize_fantasy_rankings (PList players_list) =
           PList (process_large_player_list_chunked players_list)"
    by (subst summarize_fantasy_rankings.simps) simp
  from p s show ?thesis by (simp only: summaries_identity simp_thms)
qed

theorem chunked_processing_covers_all_records_witness:
  "200 < length (replicate 200 (PDict [(''name'', PStr ''Josh Allen'')]) @
                 [PInt 7, PDict [(''display_name'', PStr ''Patrick Mahomes'')]]) \<and>
   summarize_fantasy_rankings
     (PList (replicate 200 (PDict [(''name'', PStr ''Josh Allen'')]) @
             [PInt 7, PDict [(''display_name'', PStr ''Patrick Mahomes'')]])) =
     PList (process_large_player_list_chunked
       (replicate 200 (PDict [(''name'', PStr ''Josh Allen'')]) @
        [PInt 7, PDict [(''display_name'', PStr ''Patrick Mahomes'')]])) \<and>
   map summary_identity (process_large_player_list_chunked
       (replicate 200 (PDict [(''name'', PStr ''Josh Allen'')]) @
        [PInt 7, PDict [(''display_name'', PStr ''Patrick Mahomes'')]])) =
     replicate 200 (PStr ''Josh Allen'') @ [PStr ''Patrick Mahomes'']"
proof -
  let ?l = "replicate 200 (PDict [(''name'', PStr ''Josh Allen'')]) @
            [PInt 7, PDict [(''display_name'', PStr ''Patrick Mahomes'')]]"
  have h: "200 < length ?l" by simp
  have r: "map record_identity (filter is_dict ?l) =
             replicate 200 (PStr ''Josh Allen'') @ [PStr ''Patrick Mahomes'']"
    by (simp add: is_dict_def record_identity_def dict_get_def)
  from chunked_processing_covers_all_records [OF h]
  have a: "summarize_fantasy_rankings (PList ?l) = PList (process_large_player_list_chunked ?l)"
    and c: "map summary_identity (process_large_player_list_chunked ?l) =
              map record_identity (filter is_dict ?l)"
    by blast+
  from c r have "map summary_identity (process_large_player_list_chunked ?l) =
                   replicate 200 (PStr ''Josh Allen'') @ [PStr ''Patrick Mahomes'']"
    by (rule trans)
  with h a show ?thesis by blast
qed

lemma set_update_cases:
  "(k', v') \<in> set (AList.update k v al) \<Longrightarrow> (k', v') = (k, v) \<or> (k', v') \<in> set al"
  by (induction al) (auto split: if_splits)

lemma position_step_caps:
  assumes "\<forall>(position, v) \<in> set summarized.
             \<exists>records. v = PList records \<and> length records \<le> position_max_players position"
  shows "\<forall>(position, v) \<in> set (position_step item summarized).
             \<exists>records. v = PList records \<and> length records \<le> position_max_players position"
proof -
  obtain pos players where item: "item = (pos, players)" by (cases item)
  show ?thesis
  proof (cases players)
    case (PList l)
    show ?thesis
    proof (cases "l = []")
      case True
      with item PList assms show ?thesis by (simp add: position_step_def)
    next
      case False
      with item PList assms show ?thesis
        by (auto simp: position_step_def dict_set_def dest!: set_update_cases)
    qed
  qed (use item assms in \<open>simp_all add: position_step_def\<close>)
qed

lemma fold_position_step_caps:
  "\<forall>(position, v) \<in> set summarized.
      \<exists>records. v = PList records \<and> length records \<le> position_max_players position \<Longrightarrow>
   \<forall>(position, v) \<in> set (fold position_step d summarized).
      \<exists>records. v = PList records \<and> length records \<le> position_max_players position"
proof (induction d arbitrary: summarized)
  case Nil
  then show ?case by simp
next
  case (Cons item d)
  from Cons.prems have "\<forall>(position, v) \<in> set (position_step item summarized).
      \<exists>records. v = PList records \<and> length records \<le> position_max_players position"
    by (rule position_step_caps)
  then show ?case unfolding fold_simps by (rule Cons.IH)
qed

text \<open>
  The dictionary that the position-keyed case builds keeps at most 25 entries for
  \<^verbatim>\<open>QB\<close> and at most 15 for every other position.
\<close>

lemma position_keyed_summary_caps:
  assumes "(position, v) \<in> set (position_keyed_summary d)"
  shows "\<exists>records. v = PList records \<and>
           length records \<le> (if position = ''QB'' then 25 else 15)"
proof -
  have "\<forall>(position, v) \<in> set (fold position_step d []).
      \<exists>records. v = PList records \<and> length records \<le> position_max_players position"
    by (rule fold_position_step_caps) simp
  with assms show ?thesis
    by (auto simp: position_keyed_summary_def position_max_players_def)
qed

text \<open>
  The position-keyed branch has no \<^verbatim>\<open>return\<close>: on every position-keyed mapping
  \<^verbatim>\<open>_summarize_fantasy_rankings\<close> returns \<^verbatim>\<open>None\<close>.
\<close>

lemma summarize_fantasy_rankings_position_keyed:
  assumes "list_ex (dict_has d) position_keys"
  shows "summarize_fantasy_rankings (PDict d) = PNone"
proof -
  from assms have "d \<noteq> []" by (auto simp: list_ex_iff dict_has_def)
  with assms show ?thesis
    by (subst summarize_fantasy_rankings.simps) simp
qed

text \<open>
  Claim C8. On a position-keyed mapping, what \<^verbatim>\<open>_summarize_fantasy_rankings\<close> returns
  retains at most 25 records for \<^verbatim>\<open>QB\<close> and at most 15 for every other position, and
  so does the dictionary that the branch builds with the two caps before it falls off
  the end of the function.
\<close>

theorem summarize_fantasy_rankings_position_caps:
  assumes "list_ex (dict_has d) position_keys"
  shows "length (retained_records (summarize_fantasy_rankings (PDict d)) position)
           \<le> (if position = ''QB'' then 25 else 15) \<and>
         (\<forall>v. (position, v) \<in> set (position_keyed_summary d) \<longrightarrow>
            (\<exists>records. v = PList records \<and>
               length records \<le> (if position = ''QB'' then 25 else 15)))"
proof
  from assms have "summarize_fantasy_rankings (PDict d) = PNone"
    by (rule summarize_fantasy_rankings_position_keyed)
  then show "length (retained_records (summarize_fantasy_rankings (PDict d)) position)
           \<le> (if position = ''QB'' then 25 else 15)"
    by (simp add: retained_records_def)
  show "\<forall>v. (position, v) \<in> set (position_keyed_summary d) \<longrightarrow>
            (\<exists>records. v = PList records \<and>
               length records \<le> (if position = ''QB'' then 25 else 15))"
    using position_keyed_summary_caps by blast
qed

lemma position_keyed_example:
  "position_keyed_summary
     [(''QB'', PList (replicate 26 (PDict [(''name'', PStr ''Patrick Mahomes'')]))),
      (''RB'', PList (replicate 16 (PDict [(''name'', PStr ''Ollie Gordon'')])))] =
     [(''QB'', PList (replicate 25 (PDict [(''name'', PStr ''Patrick Mahomes''),
                                           (''team'', PStr ''''), (''rank'', PInt 0)]))),
      (''RB'', PList (replicate 15 (PDict [(''name'', PStr ''Ollie Gordon''),
                                           (''team'', PStr ''''), (''rank'', PInt 0)])))]"
  by (simp add: position_keyed_summary_def position_step_def position_max_players_def
      position_player_summary_def dict_set_def dict_get_def dict_has_def)

theorem summarize_fantasy_rankings_position_caps_witness:
  "list_ex (dict_has
      [(''QB'', PList (replicate 26 (PDict [(''name'', PStr ''Patrick Mahomes'')]))),
       (''RB'', PList (replicate 16 (PDict [(''name'', PStr ''Ollie Gordon'')])))]) position_keys \<and>
   length (retained_records (summarize_fantasy_rankings (PDict
      [(''QB'', PList (replicate 26 (PDict [(''name'', PStr ''Patrick Mahomes'')]))),
       (''RB'', PList (replicate 16 (PDict [(''name'', PStr ''Ollie Gordon'')])))])) ''QB'') \<le> 25 \<and>
   length (retained_records (summarize_fantasy_rankings (PDict
      [(''QB'', PList (replicate 26 (PDict [(''name'', PStr ''Patrick Mahomes'')]))),
       (''RB'', PList (replicate 16 (PDict [(''name'', PStr ''Ollie Gordon'')])))])) ''RB'') \<le> 15 \<and>
   (\<exists>records. PList (replicate 25 (PDict [(''name'', PStr ''Patrick Mahomes''),
                                           (''team'', PStr ''''), (''rank'', PInt 0)])) = PList records \<and>
      length records \<le> 25) \<and>
   (\<exists>records. PList (replicate 15 (PDict [(''name'', PStr ''Ollie Gordon''),
                                           (''team'', PStr ''''), (''rank'', PInt 0)])) = PList records \<and>
      length records \<le> 15)"
proof -
  let ?d = "[(''QB'', PList (replicate 26 (PDict [(''name'', PStr ''Patrick Mahomes'')]))),
             (''RB'', PList (replicate 16 (PDict [(''name'', PStr ''Ollie Gordon'')])))]"
  have h: "list_ex (dict_has ?d) position_keys"
    by (simp add: dict_has_def position_keys_def)
  have q: "(''QB'', PList (replicate 25 (PDict [(''name'', PStr ''Patrick Mahomes''),
              (''team'', PStr ''''), (''rank'', PInt 0)]))) \<in> set (position_keyed_summary ?d)"
    by (simp only: position_keyed_example) simp
  have r: "(''RB'', PList (replicate 15 (PDict [(''name'', PStr ''Ollie Gordon''),
              (''team'', PStr ''''), (''rank'', PInt 0)]))) \<in> set (position_keyed_summary ?d)"
    by (simp only: position_keyed_example) simp
  from summarize_fantasy_rankings_position_caps [OF h, of "''QB''"] q
  have 1: "length (retained_records (summarize_fantasy_rankings (PDict ?d)) ''QB'') \<le> 25"
    and 2: "\<exists>records. PList (replicate 25 (PDict [(''name'', PStr ''Patrick Mahomes''),
              (''team'', PStr ''''), (''rank'', PInt 0)])) = PList records \<and> length records \<le> 25"
    by simp_all
  from summarize_fantasy_rankings_position_caps [OF h, of "''RB''"] r
  have 3: "length (retained_records (summarize_fantasy_rankings (PDict ?d)) ''RB'') \<le> 15"
    and 4: "\<exists>records. PList (replicate 15 (PDict [(''name'', PStr ''Ollie Gordon''),
              (''team'', PStr ''''), (''rank'', PInt 0)])) = PList records \<and> length records \<le> 15"
    by simp_all
  from h 1 2 3 4 show ?thesis by blast
qed

section \<open>Properties of the bundle compactor\<close>

lemma run_steps_append:
  "run_steps (pre @ post) s = and_then (run_steps pre s) (run_steps post)"
  by (induction pre arbitrary: s) (auto simp: and_then_def split: sum.splits)

lemma run_steps_raises:
  assumes "run_steps pre s = Inr s'" and "step s' = Inl e"
  shows "run_steps (pre @ step # post) s = Inl e"
  using assms by (simp add: run_steps_append and_then_def)

text \<open>
  Claim C2. For every bundle that is a mapping, and whatever the summarizers do,
  \<^verbatim>\<open>_summarize_context_data\<close> returns a value. When a statement of its body raises
  (after the statements before it went through), the value returned is the one fallback
  object with the summary text and the text of the exception.
\<close>

theorem summarize_context_data_never_raises:
  "(\<exists>v. summarize_context_data S data mentioned_players mentioned_teams = Inr v) \<and>
   (\<forall>pre step post s e.
      context_steps S data mentioned_players = pre @ step # post \<and>
      run_steps pre (initial_summary data) = Inr s \<and> step s = Inl e \<longrightarrow>
      summarize_context_data S data mentioned_players mentioned_teams =
        Inr (PDict [(''summary'', PStr context_fallback_text),
                    (''error'', PStr (str_of_error e))]))"
proof (intro conjI allI impI)
  show "\<exists>v. summarize_context_data S data mentioned_players mentioned_teams = Inr v"
    by (cases "summarize_context_body S data mentioned_players")
       (simp_all add: summarize_context_data_def try_except_def and_then_def)
next
  fix pre step post s e
  assume a: "context_steps S data mentioned_players = pre @ step # post \<and>
      run_steps pre (initial_summary data) = Inr s \<and> step s = Inl e"
  then have "summarize_context_body S data mentioned_players = Inl e"
    by (simp add: summarize_context_body_def run_steps_raises)
  then show "summarize_context_data S data mentioned_players mentioned_teams =
        Inr (PDict [(''summary'', PStr context_fallback_text),
                    (''error'', PStr (str_of_error e))])"
    by (simp add: summarize_context_data_def try_except_def and_then_def context_fallback_def)
qed

lemma category_step_absent:
  "\<not> dict_has data key \<Longrightarrow> category_step key out f data s = Inr s"
  by (simp add: category_step_def)

lemma per_team_step_absent:
  "\<not> dict_has data key \<Longrightarrow> per_team_step key f data s = Inr s"
  by (simp add: per_team_step_def)

lemma prioritized_step_absent:
  "\<not> dict_has data key \<Longrightarrow> prioritized_step key p f mentioned_players data s = Inr s"
  by (simp add: prioritized_step_def)

lemma boxscore_of_list:
  "summarize_boxscore (PList l) = Inl (AttributeError (quote @ ''list'' @ quote @ '' object has no attribute '' @ quote @ ''get'' @ quote))"
  by (simp add: summarize_boxscore_def and_then_def no_attribute_def)

theorem summarize_context_data_never_raises_witness:
  "\<forall>S. summarize_context_data S [(''boxscore'', PList [])] [] [] =
     Inr (PDict [(''summary'', PStr context_fallback_text),
                 (''error'', PStr (quote @ ''list'' @ quote @ '' object has no attribute '' @ quote @ ''get'' @ quote))])"
proof
  fix S
  let ?data = "[(''boxscore'', PList [])]"
  let ?pre = "take 8 (context_steps S ?data [])"
  let ?step = "category_step ''boxscore'' ''boxscore'' summarize_boxscore ?data"
  let ?post = "drop 9 (context_steps S ?data [])"
  let ?e = "AttributeError (quote @ ''list'' @ quote @ '' object has no attribute '' @ quote @ ''get'' @ quote)"
  have 1: "context_steps S ?data [] = ?pre @ ?step # ?post"
    by (simp add: context_steps_def)
  have 2: "run_steps ?pre (initial_summary ?data) = Inr (initial_summary ?data)"
    by (simp add: context_steps_def and_then_def category_step_absent per_team_step_absent
        dict_has_def)
  have 3: "?step (initial_summary ?data) = Inl ?e"
    by (simp add: category_step_def dict_has_def dict_get_def boxscore_of_list and_then_def)
  from summarize_context_data_never_raises [of S ?data "[]" "[]"] 1 2 3
  have "summarize_context_data S ?data [] [] =
        Inr (PDict [(''summary'', PStr context_fallback_text), (''error'', PStr (str_of_error ?e))])"
    by blast
  then show "summarize_context_data S ?data [] [] =
     Inr (PDict [(''summary'', PStr context_fallback_text),
                 (''error'', PStr (quote @ ''list'' @ quote @ '' object has no attribute '' @ quote @ ''get'' @ quote))])"
    by simp
qed

lemma boxscore_bad_side:
  "summarize_boxscore (PDict [(''home'', PStr ''KC'')]) =
     Inl (AttributeError (quote @ ''str'' @ quote @ '' object has no attribute '' @ quote @ ''get'' @ quote))"
  by (simp add: summarize_boxscore_def boxscore_side_def side_get_def and_then_def
      no_attribute_def dict_get_def)

lemma adp_summary:
  "summarize_fantasy_rankings (PList [PDict [(''name'', PStr ''Patrick Mahomes'')]]) =
     PList [PDict [(''id'', PStr ''''), (''name'', PStr ''Patrick Mahomes''), (''team'', PStr ''''),
                   (''position'', PStr ''''), (''rank'', PInt 0), (''bye_week'', PStr '''')]]"
  by code_simp

lemma depth_step_absent:
  "\<not> dict_has data ''depth'' \<Longrightarrow> \<not> dict_has data ''depth_charts'' \<Longrightarrow>
   depth_step f data s = Inr s"
  by (simp add: depth_step_def category_step_def)

text \<open>
  Claim C7 fails on \<^verbatim>\<open>_summarize_boxscore\<close>, which has no \<^verbatim>\<open>try\<close>: on a boxscore whose
  \<^verbatim>\<open>home\<close> entry is a string it raises, and the bundle with this boxscore and an
  \<^verbatim>\<open>adp\<close> list is replaced as a whole by the top-level fallback object, so the sibling
  category \<^verbatim>\<open>adp\<close>, which the same bundle without the boxscore gets summarized, is lost.
\<close>

theorem summarize_boxscore_raises:
  "summarize_boxscore (PDict [(''home'', PStr ''KC'')]) =
     Inl (AttributeError (quote @ ''str'' @ quote @ '' object has no attribute '' @ quote @ ''get'' @ quote)) \<and>
   (\<forall>S. summarize_context_data S
          [(''boxscore'', PDict [(''home'', PStr ''KC'')]),
           (''adp'', PList [PDict [(''name'', PStr ''Patrick Mahomes'')]])] [] [] =
        Inr (PDict [(''summary'', PStr context_fallback_text),
                    (''error'', PStr (quote @ ''str'' @ quote @ '' object has no attribute '' @ quote @ ''get'' @ quote))])) \<and>
   (\<forall>S. summarize_context_data S
          [(''adp'', PList [PDict [(''name'', PStr ''Patrick Mahomes'')]])] [] [] =
        Inr (PDict [(''query_type'', PStr ''unknown''), (''metadata'', PDict []),
                    (''adp'', PList [PDict [(''id'', PStr ''''), (''name'', PStr ''Patrick Mahomes''),
                       (''team'', PStr ''''), (''position'', PStr ''''), (''rank'', PInt 0),
                       (''bye_week'', PStr '''')]])]))"
proof (intro conjI allI)
  show "summarize_boxscore (PDict [(''home'', PStr ''KC'')]) =
     Inl (AttributeError (quote @ ''str'' @ quote @ '' object has no attribute '' @ quote @ ''get'' @ quote))"
    by (rule boxscore_bad_side)
next
  fix S
  let ?data = "[(''boxscore'', PDict [(''home'', PStr ''KC'')]),
                (''adp'', PList [PDict [(''name'', PStr ''Patrick Mahomes'')]])]"
  let ?pre = "take 8 (context_steps S ?data [])"
  let ?step = "category_step ''boxscore'' ''boxscore'' summarize_boxscore ?data"
  let ?post = "drop 9 (context_steps S ?data [])"
  let ?e = "AttributeError (quote @ ''str'' @ quote @ '' object has no attribute '' @ quote @ ''get'' @ quote)"
  have 1: "context_steps S ?data [] = ?pre @ ?step # ?post"
    by (simp add: context_steps_def)
  have 2: "run_steps ?pre (initial_summary ?data) = Inr (initial_summary ?data)"
    by (simp add: context_steps_def and_then_def category_step_absent per_team_step_absent
        dict_has_def)
  have 3: "?step (initial_summary ?data) = Inl ?e"
    by (simp add: category_step_def dict_has_def dict_get_def boxscore_bad_side and_then_def)
  have "summarize_context_body S ?data [] = Inl ?e"
    unfolding summarize_context_body_def
    by (subst 1)
       (rule run_steps_raises [where pre = "?pre" and step = "?step" and
          s' = "initial_summary ?data", OF 2 3])
  then show "summarize_context_data S ?data [] [] =
        Inr (PDict [(''summary'', PStr context_fallback_text),
                    (''error'', PStr (quote @ ''str'' @ quote @ '' object has no attribute '' @ quote @ ''get'' @ quote))])"
    by (simp add: summarize_context_data_def try_except_def and_then_def context_fallback_def)
next
  fix S
  let ?data = "[(''adp'', PList [PDict [(''name'', PStr ''Patrick Mahomes'')]])]"
  have "summarize_context_body S ?data [] =
          Inr [(''query_type'', PStr ''unknown''), (''metadata'', PDict []),
               (''adp'', PList [PDict [(''id'', PStr ''''), (''name'', PStr ''Patrick Mahomes''),
                       (''team'', PStr ''''), (''position'', PStr ''''), (''rank'', PInt 0),
                       (''bye_week'', PStr '''')]])]"
    by (simp add: summarize_context_body_def context_steps_def and_then_def
        category_step_def per_team_step_def prioritized_step_def depth_step_def
        dict_has_def dict_get_def fantasy_rankings_def adp_summary dict_set_def
        initial_summary_def)
  then show "summarize_context_data S ?data [] [] =
        Inr (PDict [(''query_type'', PStr ''unknown''), (''metadata'', PDict []),
                    (''adp'', PList [PDict [(''id'', PStr ''''), (''name'', PStr ''Patrick Mahomes''),
                       (''team'', PStr ''''), (''position'', PStr ''''), (''rank'', PInt 0),
                       (''bye_week'', PStr '''')]])])"
    by (simp add: summarize_context_data_def try_except_def and_then_def)
qed

section \<open>Properties of the summarizers' fallback texts\<close>

text \<open>
  Claim C9 fails on \<^verbatim>\<open>_summarize_draft_projections\<close>: on an empty input it returns a
  summary that says no data is available, where its sibling
  \<^verbatim>\<open>_summarize_fantasy_rankings\<close> returns its domain-generic filler text.
\<close>

theorem summarize_draft_projections_empty:
  "summarize_draft_projections (PDict []) =
     PDict [(''summary'', PStr ''No draft projections data available'')] \<and>
   summarize_fantasy_rankings (PDict []) = PDict [(''summary'', PStr rankings_filler)]"
proof
  show "summarize_draft_projections (PDict []) =
     PDict [(''summary'', PStr ''No draft projections data available'')]"
    by (simp add: summarize_draft_projections_def draft_projections_body_def)
  show "summarize_fantasy_rankings (PDict []) = PDict [(''summary'', PStr rankings_filler)]"
    by (subst summarize_fantasy_rankings.simps) simp
qed

section \<open>Properties of the budget on the context string\<close>


lemma length_json_escape: "length s \<le> length (concat (map json_escape_char s))"
proof (induction s)
  case Nil
  then show ?case by simp
next
  case (Cons c s)
  have "1 \<le> length (json_escape_char c)"
    by (simp add: json_escape_char_def Let_def)
  with Cons show ?case by simp
qed

lemma length_json_string: "length s + 2 \<le> length (json_string s)"
  using length_json_escape [of s] by (simp add: json_string_def)

lemma length_long_text: "length long_text = 50000"
  by (simp add: long_text_def)

lemma long_text_not_short: "length t < 50000 \<Longrightarrow> long_text \<noteq> t"
  using length_long_text by auto

lemma long_bundle_summary:
  "summarize_context_data S long_bundle [] [] =
     Inr (PDict [(''query_type'', PStr long_text), (''metadata'', PDict [])])"
  by (simp add: summarize_context_data_def summarize_context_body_def context_steps_def
      try_except_def and_then_def category_step_def per_team_step_def prioritized_step_def
      depth_step_def dict_has_def dict_get_def initial_summary_def long_bundle_def)

lemma long_summary_over_budget:
  "max_context_size <
     length (json_dumps (PDict [(''query_type'', PStr long_text), (''metadata'', PDict [])]))"
  using length_json_string [of long_text]
  by (simp add: json_dumps_def max_context_size_def length_long_text)

lemma long_essential:
  "essential_data_of S (PDict [(''query_type'', PStr long_text), (''metadata'', PDict [])]) [] [] =
     Inr long_essential_data"
  by (simp add: essential_data_of_def and_then_def dict_get_def dict_has_def
      long_text_not_short fallback_keys_def long_essential_data_def)

lemma long_essential_over_budget:
  "max_context_size < length (json_dumps (PDict long_essential_data))"
  using length_json_string [of long_text]
  by (simp add: json_dumps_def max_context_size_def length_long_text long_essential_data_def
      initial_essential_data_def)


text \<open>
  Claim C10. When the full summary and also the reduced summary serialize to more than
  50000 characters, the context string is the first 50000 characters of the reduced
  serialization followed by the marker
  \<^verbatim>\<open>...[additional data available - query for specific players]\<close>: it ends with the
  marker, and its length is 50000 plus the length of the marker.
\<close>

theorem hard_truncation_appends_marker:
  assumes "context_data \<noteq> []"
      and "summarize_context_data S context_data mentioned_players mentioned_teams =
             Inr summarized_data"
      and "50000 < length (json_dumps summarized_data)"
      and "essential_data_of S summarized_data mentioned_players mentioned_teams =
             Inr essential_data"
      and "50000 < length (json_dumps (PDict essential_data))"
  shows "context_message S context_data mentioned_players mentioned_teams =
           Inr (Some (take 50000 (json_dumps (PDict essential_data)) @
                      ''...[additional data available - query for specific players]'')) \<and>
         suffix ''...[additional data available - query for specific players]''
           (take 50000 (json_dumps (PDict essential_data)) @
            ''...[additional data available - query for specific players]'') \<and>
         length (take 50000 (json_dumps (PDict essential_data)) @
                 ''...[additional data available - query for specific players]'') =
           50000 + length ''...[additional data available - query for specific players]''"
proof -
  from assms have "context_message S context_data mentioned_players mentioned_teams =
      Inr (Some (final_size_check (json_dumps (PDict essential_data))))"
    by (simp add: context_message_def and_then_def max_context_size_def Let_def)
  with assms(5) show ?thesis
    by (simp add: final_size_check_def max_context_size_def truncation_marker_def suffix_def)
qed

theorem hard_truncation_appends_marker_witness:
  "\<forall>S. long_bundle \<noteq> [] \<and>
     summarize_context_data S long_bundle [] [] =
       Inr (PDict [(''query_type'', PStr long_text), (''metadata'', PDict [])]) \<and>
     50000 < length (json_dumps (PDict [(''query_type'', PStr long_text), (''metadata'', PDict [])])) \<and>
     essential_data_of S (PDict [(''query_type'', PStr long_text), (''metadata'', PDict [])]) [] [] =
       Inr long_essential_data \<and>
     50000 < length (json_dumps (PDict long_essential_data)) \<and>
     context_message S long_bundle [] [] =
       Inr (Some (take 50000 (json_dumps (PDict long_essential_data)) @
                  ''...[additional data available - query for specific players]''))"
proof
  fix S
  have 1: "long_bundle \<noteq> []" by (simp add: long_bundle_def)
  have 3: "50000 < length (json_dumps (PDict [(''query_type'', PStr long_text), (''metadata'', PDict [])]))"
    using long_summary_over_budget by (simp add: max_context_size_def)
  have 5: "50000 < length (json_dumps (PDict long_essential_data))"
    using long_essential_over_budget by (simp add: max_context_size_def)
  from hard_truncation_appends_marker [OF 1 long_bundle_summary 3 long_essential 5]
    1 3 5 long_bundle_summary [of S] long_essential [of S]
  show "long_bundle \<noteq> [] \<and>
     summarize_context_data S long_bundle [] [] =
       Inr (PDict [(''query_type'', PStr long_text), (''metadata'', PDict [])]) \<and>
     50000 < length (json_dumps (PDict [(''query_type'', PStr long_text), (''metadata'', PDict [])])) \<and>
     essential_data_of S (PDict [(''query_type'', PStr long_text), (''metadata'', PDict [])]) [] [] =
       Inr long_essential_data \<and>
     50000 < length (json_dumps (PDict long_essential_data)) \<and>
     context_message S long_bundle [] [] =
       Inr (Some (take 50000 (json_dumps (PDict long_essential_data)) @
                  ''...[additional data available - query for specific players]''))"
    by blast
qed





end
